theory Spec2Isabelle
  imports Complex_Main
begin

section \<open>Numbers and vectors\<close>

text \<open>
  JavaScript numbers are modelled as mathematical reals: \<open>Math.sin\<close>, \<open>Math.cos\<close>,
  \<open>Math.PI\<close> and \<open>Math.floor\<close> are \<^const>\<open>sin\<close>, \<^const>\<open>cos\<close>, \<^const>\<open>pi\<close>
  and \<^const>\<open>floor\<close>. Rounding to IEEE doubles is outside the model; the rounding of
  a geometry's position buffer to 32-bit floats is modelled where the kelp is built.

  \<open>THREE.Vector3\<close>: the fields \<open>x\<close>, \<open>y\<close>, \<open>z\<close> are written \<open>vx\<close>, \<open>vy\<close>, \<open>vz\<close>.
  \<open>new THREE.Vector3()\<close> is the zero vector; \<open>a.lerp(v, alpha)\<close> adds
  \<open>(v - a) * alpha\<close> to every component of \<open>a\<close>.
\<close>

record Vector3 =
  vx :: real
  vy :: real
  vz :: real

definition newVector3 :: Vector3 where
  "newVector3 = \<lparr>vx = 0, vy = 0, vz = 0\<rparr>"

definition lerp :: "Vector3 \<Rightarrow> Vector3 \<Rightarrow> real \<Rightarrow> Vector3" where
  "lerp a v alpha =
     \<lparr>vx = vx a + (vx v - vx a) * alpha,
      vy = vy a + (vy v - vy a) * alpha,
      vz = vz a + (vz v - vz a) * alpha\<rparr>"


section \<open>ThreeView: the scene component (both variants)\<close>

subsection \<open>Collaborating controllers\<close>

text \<open>
  Modelled from the spec: the class \<open>RodController\<close> is imported by ThreeView but is
  not among the sources. The spec says of \<open>setReeling(active)\<close> that it "toggles a
  boolean animation flag on the rod sub-controller"; that flag is the field
  \<open>reeling\<close>. Everything else the rod holds is the record's extension.
\<close>

record RodController =
  reeling :: bool

definition rod_setReeling :: "bool \<Rightarrow> 'r RodController_scheme \<Rightarrow> 'r RodController_scheme" where
  "rod_setReeling b r = r\<lparr>reeling := b\<rparr>"

text \<open>
  Modelled from the spec: the class \<open>BobberController\<close> is not among the sources.
  ThreeView reads and writes its \<open>position\<close> (a \<open>Vector3\<close>), and the spec lets
  \<open>cast\<close> "mark the bobber visible" and \<open>reset\<close> "hide the bobber" through
  \<open>setVisible\<close>, the set-node-visibility primitive: the field \<open>visible\<close>.
\<close>

record BobberController =
  visible :: bool
  position :: Vector3

definition bobber_setVisible :: "bool \<Rightarrow> 'b BobberController_scheme \<Rightarrow> 'b BobberController_scheme" where
  "bobber_setVisible b c = c\<lparr>visible := b\<rparr>"

text \<open>
  \<open>SeabedController\<close> (its source is present): \<open>setVisible\<close> assigns
  \<open>this.group.visible\<close>. The constructor makes \<open>group = new THREE.Group()\<close>, and a
  fresh three.js object is visible; none of \<open>initSeabed\<close>, \<open>initRuins\<close>,
  \<open>initVegetation\<close> or \<open>animate\<close> assigns the group's flag.
\<close>

record SeabedController =
  group_visible :: bool

definition newSeabedController :: SeabedController where
  "newSeabedController = \<lparr>group_visible = True\<rparr>"

definition seabed_setVisible :: "bool \<Rightarrow> SeabedController \<Rightarrow> SeabedController" where
  "seabed_setVisible v c = c\<lparr>group_visible := v\<rparr>"

text \<open>
  Modelled from the spec: \<open>WeatherType\<close> is declared in the missing \<open>types\<close> module;
  the spec gives the enumeration \<open>{CLEAR, RAIN, STORM, FOG}\<close>. Of the weather
  controller's state ThreeView reads the fields \<open>time\<close> and \<open>weather\<close>.
\<close>

datatype WeatherType = CLEAR | RAIN | STORM | FOG

record WeatherState =
  time :: real
  weather :: WeatherType

text \<open>
  The methods of the missing controller classes whose effect neither the sources nor
  the spec determine are parameters of the model: the constructors, the rod's
  \<open>triggerCast\<close>, \<open>getTipWorldPosition\<close> (the vector it writes to its argument),
  \<open>update\<close> and \<open>animate\<close>, the bobber's \<open>updateEnchant\<close> and \<open>animate\<close>, and the
  weather controller's initial state.
\<close>

record ('r, 'b) Controllers =
  newRodController :: "'r RodController_scheme"
  newBobberController :: "'b BobberController_scheme"
  newWeatherState :: WeatherState
  triggerCast :: "'r RodController_scheme \<Rightarrow> 'r RodController_scheme"
  getTipWorldPosition :: "'r RodController_scheme \<Rightarrow> Vector3"
  rod_update :: "real \<Rightarrow> string \<Rightarrow> string \<Rightarrow> 'r RodController_scheme \<Rightarrow> 'r RodController_scheme"
  rod_animate :: "real \<Rightarrow> 'r RodController_scheme \<Rightarrow> 'r RodController_scheme"
  updateEnchant :: "string \<Rightarrow> 'b BobberController_scheme \<Rightarrow> 'b BobberController_scheme"
  bobber_animate :: "real \<Rightarrow> 'b BobberController_scheme \<Rightarrow> 'b BobberController_scheme"


subsection \<open>The component's refs\<close>

text \<open>
  The refs of one mounted component. \<open>stateRef\<close> is the two fields \<open>isCasted\<close> and
  \<open>targetPos\<close>; a ref whose \<open>current\<close> is \<open>null\<close> is \<open>None\<close>. The line is its
  position buffer: the two end points. \<open>lastWeatherReportRef\<close> starts as
  \<open>{weather: 'CLEAR', hour: -1}\<close>.
\<close>

datatype WebGLRenderer = WebGLRenderer

record WeatherReport =
  last_weather :: WeatherType
  hour :: int

record ('r, 'b) ThreeView =
  isCasted :: bool
  targetPos :: Vector3
  rendererRef :: "WebGLRenderer option"
  rodCtrlRef :: "'r RodController_scheme option"
  bobberCtrlRef :: "'b BobberController_scheme option"
  weatherCtrlRef :: "WeatherState option"
  seabedCtrlRef :: "SeabedController option"
  line :: "(Vector3 \<times> Vector3) option"
  lastWeatherReportRef :: WeatherReport

definition initialView :: "('r, 'b) ThreeView" where
  "initialView =
     \<lparr>isCasted = False, targetPos = \<lparr>vx = 0, vy = 0, vz = 0\<rparr>,
      rendererRef = None, rodCtrlRef = None, bobberCtrlRef = None,
      weatherCtrlRef = None, seabedCtrlRef = None, line = None,
      lastWeatherReportRef = \<lparr>last_weather = CLEAR, hour = -1\<rparr>\<rparr>"


subsection \<open>The command API, variant without the map prop\<close>

definition cast_v1 :: "('r, 'b) Controllers \<Rightarrow> real \<Rightarrow> ('r, 'b) ThreeView \<Rightarrow> ('r, 'b) ThreeView" where
  "cast_v1 K distance s =
     (let s1 = s\<lparr>isCasted := True\<rparr>;
          s2 = (case rodCtrlRef s1 of
                  None \<Rightarrow> s1
                | Some r \<Rightarrow> s1\<lparr>rodCtrlRef := Some (triggerCast K r)\<rparr>);
          s3 = (case bobberCtrlRef s2 of
                  None \<Rightarrow> s2
                | Some b \<Rightarrow>
                    (let b1 = bobber_setVisible True b;
                         startPos = (case rodCtrlRef s2 of
                                       None \<Rightarrow> newVector3
                                     | Some r \<Rightarrow> getTipWorldPosition K r)
                     in s2\<lparr>bobberCtrlRef := Some (b1\<lparr>position := startPos\<rparr>)\<rparr>));
          zPos = - 10 - distance / 5
      in s3\<lparr>targetPos := \<lparr>vx = 0, vy = 0, vz = zPos\<rparr>\<rparr>)"

definition reset_v1 :: "('r, 'b) ThreeView \<Rightarrow> ('r, 'b) ThreeView" where
  "reset_v1 s =
     (let s1 = s\<lparr>isCasted := False\<rparr>;
          s2 = (case rodCtrlRef s1 of
                  None \<Rightarrow> s1
                | Some r \<Rightarrow> s1\<lparr>rodCtrlRef := Some (rod_setReeling False r)\<rparr>)
      in (case bobberCtrlRef s2 of
            None \<Rightarrow> s2
          | Some b \<Rightarrow> s2\<lparr>bobberCtrlRef := Some (bobber_setVisible False b)\<rparr>))"

definition setReeling_v1 :: "bool \<Rightarrow> ('r, 'b) ThreeView \<Rightarrow> ('r, 'b) ThreeView" where
  "setReeling_v1 reeling_arg s =
     (case rodCtrlRef s of
        None \<Rightarrow> s
      | Some r \<Rightarrow> s\<lparr>rodCtrlRef := Some (rod_setReeling reeling_arg r)\<rparr>)"


subsection \<open>The command API, variant with the map prop\<close>

definition cast_v2 :: "('r, 'b) Controllers \<Rightarrow> real \<Rightarrow> ('r, 'b) ThreeView \<Rightarrow> ('r, 'b) ThreeView" where
  "cast_v2 K distance s =
     (let s1 = s\<lparr>isCasted := True\<rparr>;
          s2 = (case rodCtrlRef s1 of
                  None \<Rightarrow> s1
                | Some r \<Rightarrow> s1\<lparr>rodCtrlRef := Some (triggerCast K r)\<rparr>);
          s3 = (case bobberCtrlRef s2 of
                  None \<Rightarrow> s2
                | Some b \<Rightarrow>
                    (let b1 = bobber_setVisible True b;
                         startPos = (case rodCtrlRef s2 of
                                       None \<Rightarrow> newVector3
                                     | Some r \<Rightarrow> getTipWorldPosition K r)
                     in s2\<lparr>bobberCtrlRef := Some (b1\<lparr>position := startPos\<rparr>)\<rparr>));
          zPos = - 10 - distance / 5
      in s3\<lparr>targetPos := \<lparr>vx = 0, vy = 0, vz = zPos\<rparr>\<rparr>)"

definition reset_v2 :: "('r, 'b) ThreeView \<Rightarrow> ('r, 'b) ThreeView" where
  "reset_v2 s =
     (let s1 = s\<lparr>isCasted := False\<rparr>;
          s2 = (case rodCtrlRef s1 of
                  None \<Rightarrow> s1
                | Some r \<Rightarrow> s1\<lparr>rodCtrlRef := Some (rod_setReeling False r)\<rparr>)
      in (case bobberCtrlRef s2 of
            None \<Rightarrow> s2
          | Some b \<Rightarrow> s2\<lparr>bobberCtrlRef := Some (bobber_setVisible False b)\<rparr>))"

definition setReeling_v2 :: "bool \<Rightarrow> ('r, 'b) ThreeView \<Rightarrow> ('r, 'b) ThreeView" where
  "setReeling_v2 reeling_arg s =
     (case rodCtrlRef s of
        None \<Rightarrow> s
      | Some r \<Rightarrow> s\<lparr>rodCtrlRef := Some (rod_setReeling reeling_arg r)\<rparr>)"

text \<open>A call sequence on the command API, run against either variant.\<close>

datatype Command = Cast real | Reset | SetReeling bool

fun call_v1 :: "('r, 'b) Controllers \<Rightarrow> Command \<Rightarrow> ('r, 'b) ThreeView \<Rightarrow> ('r, 'b) ThreeView" where
  "call_v1 K (Cast d) s = cast_v1 K d s"
| "call_v1 K Reset s = reset_v1 s"
| "call_v1 K (SetReeling b) s = setReeling_v1 b s"

fun call_v2 :: "('r, 'b) Controllers \<Rightarrow> Command \<Rightarrow> ('r, 'b) ThreeView \<Rightarrow> ('r, 'b) ThreeView" where
  "call_v2 K (Cast d) s = cast_v2 K d s"
| "call_v2 K Reset s = reset_v2 s"
| "call_v2 K (SetReeling b) s = setReeling_v2 b s"

fun run_v1 :: "('r, 'b) Controllers \<Rightarrow> Command list \<Rightarrow> ('r, 'b) ThreeView \<Rightarrow> ('r, 'b) ThreeView" where
  "run_v1 K [] s = s"
| "run_v1 K (c # cs) s = run_v1 K cs (call_v1 K c s)"

fun run_v2 :: "('r, 'b) Controllers \<Rightarrow> Command list \<Rightarrow> ('r, 'b) ThreeView \<Rightarrow> ('r, 'b) ThreeView" where
  "run_v2 K [] s = s"
| "run_v2 K (c # cs) s = run_v2 K cs (call_v2 K c s)"

text \<open>What a caller of the API can observe of the cast rig.\<close>

record Observation =
  obs_isCasted :: bool
  obs_targetPos :: Vector3
  obs_bobberVisible :: "bool option"
  obs_reeling :: "bool option"

definition observe :: "('r, 'b) ThreeView \<Rightarrow> Observation" where
  "observe s =
     \<lparr>obs_isCasted = isCasted s, obs_targetPos = targetPos s,
      obs_bobberVisible = map_option visible (bobberCtrlRef s),
      obs_reeling = map_option reeling (rodCtrlRef s)\<rparr>"


subsection \<open>The frame step\<close>

text \<open>
  One call of \<open>animate\<close>. Its inputs from outside the component are the clock
  (\<open>time = now * 0.001\<close>), whether the renderer still has its WebGL context, and the
  weather controller's state once its \<open>update(dt)\<close> (missing, and random) has run.
  The water, boat and fishing-spot updates and the final render touch none of the
  refs modelled here and are left out; \<open>SeabedController.animate\<close> turns and scales
  crystals and kelp only.
\<close>

record FrameInput =
  frame_time :: real
  contextAlive :: bool
  updatedWeather :: WeatherState

text \<open>
  The weather report: \<open>onWeatherUpdate\<close> is an optional prop, here the flag saying
  whether it was supplied; the result is the new \<open>lastWeatherReportRef\<close> and the
  arguments of the callback when it is invoked.
\<close>

definition weatherReport ::
  "bool \<Rightarrow> WeatherState \<Rightarrow> WeatherReport \<Rightarrow> WeatherReport \<times> (WeatherType \<times> real) option" where
  "weatherReport onWeatherUpdate weatherState last_report =
     (if onWeatherUpdate then
        (let currentHour = \<lfloor>time weatherState\<rfloor> in
         if last_weather last_report \<noteq> weather weatherState \<or> hour last_report \<noteq> currentHour
         then (\<lparr>last_weather = weather weatherState, hour = currentHour\<rparr>,
               Some (weather weatherState, time weatherState))
         else (last_report, None))
      else (last_report, None))"

definition bobble :: "real \<Rightarrow> real" where
  "bobble t = sin (t * 2.5) * 0.04 + cos (t * 1.5) * 0.02"

definition lineLogic :: "('r, 'b) Controllers \<Rightarrow> real \<Rightarrow> ('r, 'b) ThreeView \<Rightarrow> ('r, 'b) ThreeView" where
  "lineLogic K t s =
     (let rodTipPos = (case rodCtrlRef s of
                         None \<Rightarrow> newVector3
                       | Some r \<Rightarrow> getTipWorldPosition K r)
      in if isCasted s \<and> bobberCtrlRef s \<noteq> None \<and> line s \<noteq> None then
           (case bobberCtrlRef s of
              None \<Rightarrow> s
            | Some b \<Rightarrow>
                (let p1 = lerp (position b) (targetPos s) 0.05;
                     p2 = p1\<lparr>vy := bobble t - 0.05\<rparr>
                 in s\<lparr>bobberCtrlRef := Some (b\<lparr>position := p2\<rparr>),
                      line := Some (rodTipPos, \<lparr>vx = vx p2, vy = vy p2 + 0.3, vz = vz p2\<rparr>)\<rparr>))
         else if line s \<noteq> None \<and> \<not> isCasted s then
           (let swingX = sin (t * 1.5) * 0.1;
                swingZ = cos (t * 1.2) * 0.1
            in s\<lparr>line := Some (rodTipPos,
                  \<lparr>vx = vx rodTipPos + swingX, vy = vy rodTipPos - 1.5,
                   vz = vz rodTipPos + swingZ\<rparr>)\<rparr>)
         else s)"

definition weatherStep ::
  "bool \<Rightarrow> FrameInput \<Rightarrow> ('r, 'b) ThreeView \<Rightarrow> ('r, 'b) ThreeView \<times> (WeatherType \<times> real) option" where
  "weatherStep onWeatherUpdate inp s =
     (case weatherCtrlRef s of
        None \<Rightarrow> (s, None)
      | Some w \<Rightarrow>
          (let weatherState = updatedWeather inp;
               r = weatherReport onWeatherUpdate weatherState (lastWeatherReportRef s)
           in (s\<lparr>weatherCtrlRef := Some weatherState, lastWeatherReportRef := fst r\<rparr>, snd r)))"

definition controllersAnimate :: "('r, 'b) Controllers \<Rightarrow> real \<Rightarrow> ('r, 'b) ThreeView \<Rightarrow> ('r, 'b) ThreeView" where
  "controllersAnimate K t s =
     s\<lparr>rodCtrlRef := map_option (rod_animate K t) (rodCtrlRef s),
       bobberCtrlRef := map_option (bobber_animate K t) (bobberCtrlRef s)\<rparr>"

text \<open>The variant without the map prop runs every frame it is called for.\<close>

definition animate_v1 ::
  "('r, 'b) Controllers \<Rightarrow> bool \<Rightarrow> FrameInput \<Rightarrow> ('r, 'b) ThreeView
     \<Rightarrow> ('r, 'b) ThreeView \<times> (WeatherType \<times> real) option" where
  "animate_v1 K onWeatherUpdate inp s =
     (let r = weatherStep onWeatherUpdate inp s;
          s1 = controllersAnimate K (frame_time inp) (fst r)
      in (lineLogic K (frame_time inp) s1, snd r))"

text \<open>
  The variant with the map prop returns at once, without scheduling another frame,
  when the renderer is gone or has lost its context; the rest of its body is the
  body of the other variant, statement for statement.
\<close>

definition animate_v2 ::
  "('r, 'b) Controllers \<Rightarrow> bool \<Rightarrow> FrameInput \<Rightarrow> ('r, 'b) ThreeView
     \<Rightarrow> ('r, 'b) ThreeView \<times> (WeatherType \<times> real) option" where
  "animate_v2 K onWeatherUpdate inp s =
     (if rendererRef s = None \<or> \<not> contextAlive inp then (s, None)
      else
        (let r = weatherStep onWeatherUpdate inp s;
             s1 = controllersAnimate K (frame_time inp) (fst r)
         in (lineLogic K (frame_time inp) s1, snd r)))"

datatype Variant = WithoutMap | WithMap

fun animate ::
  "Variant \<Rightarrow> ('r, 'b) Controllers \<Rightarrow> bool \<Rightarrow> FrameInput \<Rightarrow> ('r, 'b) ThreeView
     \<Rightarrow> ('r, 'b) ThreeView \<times> (WeatherType \<times> real) option" where
  "animate WithoutMap K onWeatherUpdate inp s = animate_v1 K onWeatherUpdate inp s"
| "animate WithMap K onWeatherUpdate inp s = animate_v2 K onWeatherUpdate inp s"

text \<open>
  A run of frames: the refs after each frame, and for each frame the arguments of the
  \<open>onWeatherUpdate\<close> call it made, if it made one.
\<close>

fun frameStates ::
  "Variant \<Rightarrow> ('r, 'b) Controllers \<Rightarrow> bool \<Rightarrow> FrameInput list \<Rightarrow> ('r, 'b) ThreeView
     \<Rightarrow> ('r, 'b) ThreeView list" where
  "frameStates v K on [] s = []"
| "frameStates v K on (inp # inps) s =
     fst (animate v K on inp s) # frameStates v K on inps (fst (animate v K on inp s))"

fun frameCalls ::
  "Variant \<Rightarrow> ('r, 'b) Controllers \<Rightarrow> bool \<Rightarrow> FrameInput list \<Rightarrow> ('r, 'b) ThreeView
     \<Rightarrow> (WeatherType \<times> real) option list" where
  "frameCalls v K on [] s = []"
| "frameCalls v K on (inp # inps) s =
     snd (animate v K on inp s) # frameCalls v K on inps (fst (animate v K on inp s))"

text \<open>
  The last reported weather and hour after a run of frames, read off the calls that
  were made: the pair of the latest call, with the hour the floor of its time, or
  the initial pair when no call was made.
\<close>

fun lastReported :: "WeatherReport \<Rightarrow> (WeatherType \<times> real) option list \<Rightarrow> WeatherReport" where
  "lastReported r [] = r"
| "lastReported r (None # cs) = lastReported r cs"
| "lastReported r (Some (w, t) # cs) = lastReported \<lparr>last_weather = w, hour = \<lfloor>t\<rfloor>\<rparr> cs"

definition bobberY :: "('r, 'b) ThreeView \<Rightarrow> real option" where
  "bobberY s = map_option (\<lambda>b. vy (position b)) (bobberCtrlRef s)"


subsection \<open>Mounting and the prop effects (variant with the map prop)\<close>

text \<open>
  The host at mount time: whether \<open>containerRef.current\<close> is set, and whether
  \<open>new THREE.WebGLRenderer\<close> succeeds rather than throws. The props are numbers and
  strings at run time (the enumerations of the missing \<open>types\<close> module are string
  literal types); the prop \<open>map\<close> is the field \<open>map_prop\<close>.
\<close>

record Env =
  containerPresent :: bool
  webglAvailable :: bool

record Props =
  rodLevel :: real
  enchant :: string
  boatType :: string
  rodSkin :: string
  map_prop :: string

text \<open>
  The mount effect builds the scene and the controllers, fills the refs and calls
  \<open>animate\<close> once itself. It returns early, leaving the controller refs as they
  were, when there is no container, when a renderer exists already, or when the
  renderer cannot be created.
\<close>

definition mountEffect ::
  "('r, 'b) Controllers \<Rightarrow> Env \<Rightarrow> bool \<Rightarrow> FrameInput \<Rightarrow> ('r, 'b) ThreeView \<Rightarrow> ('r, 'b) ThreeView" where
  "mountEffect K env onWeatherUpdate inp s =
     (if \<not> containerPresent env then s
      else if rendererRef s \<noteq> None then s
      else if \<not> webglAvailable env then s
      else fst (animate_v2 K onWeatherUpdate inp
             (s\<lparr>rendererRef := Some WebGLRenderer,
                rodCtrlRef := Some (newRodController K),
                bobberCtrlRef := Some (newBobberController K),
                seabedCtrlRef := Some newSeabedController,
                line := Some (newVector3, newVector3),
                weatherCtrlRef := Some (newWeatherState K)\<rparr>)))"

definition rodEffect :: "('r, 'b) Controllers \<Rightarrow> Props \<Rightarrow> ('r, 'b) ThreeView \<Rightarrow> ('r, 'b) ThreeView" where
  "rodEffect K p s =
     s\<lparr>rodCtrlRef := map_option (rod_update K (rodLevel p) (enchant p) (rodSkin p)) (rodCtrlRef s),
       bobberCtrlRef := map_option (updateEnchant K (enchant p)) (bobberCtrlRef s)\<rparr>"

definition mapEffect :: "string \<Rightarrow> ('r, 'b) ThreeView \<Rightarrow> ('r, 'b) ThreeView" where
  "mapEffect m s =
     (case seabedCtrlRef s of
        None \<Rightarrow> s
      | Some c \<Rightarrow> s\<lparr>seabedCtrlRef := Some (seabed_setVisible (m = ''atlantis'') c)\<rparr>)"

text \<open>
  The first render of a component: React runs the effects in the order they are
  declared (the boat effect touches only the boat, which is not modelled).
\<close>

definition firstRender ::
  "('r, 'b) Controllers \<Rightarrow> Env \<Rightarrow> bool \<Rightarrow> FrameInput \<Rightarrow> Props \<Rightarrow> ('r, 'b) ThreeView" where
  "firstRender K env onWeatherUpdate inp p =
     mapEffect (map_prop p) (rodEffect K p (mountEffect K env onWeatherUpdate inp initialView))"


text \<open>
  Whether a frame gets past the context check of the variant with the map prop; the
  other variant has no such check.
\<close>

fun frameRuns :: "Variant \<Rightarrow> FrameInput \<Rightarrow> ('r, 'b) ThreeView \<Rightarrow> bool" where
  "frameRuns WithoutMap inp s = True"
| "frameRuns WithMap inp s = (rendererRef s \<noteq> None \<and> contextAlive inp)"

fun framesRun :: "Variant \<Rightarrow> FrameInput list \<Rightarrow> ('r, 'b) ThreeView \<Rightarrow> bool" where
  "framesRun WithoutMap inps s = True"
| "framesRun WithMap inps s = (rendererRef s \<noteq> None \<and> list_all contextAlive inps)"


section \<open>FishViewer: the low-poly fish generator and its animation\<close>

subsection \<open>Scene objects\<close>

text \<open>
  A three.js object: its \<open>name\<close> (the empty string unless assigned), what it is (a
  mesh of a geometry and a material, or a group), \<open>position\<close>, \<open>rotation\<close>,
  \<open>scale\<close> and children. A geometry is the constructor call that made it, under the
  \<open>rotateX\<close>/\<open>rotateZ\<close> calls applied to it afterwards.
\<close>

datatype Geometry =
    TubeGeometry "Vector3 list" nat real nat bool
  | ConeGeometry real real nat
  | LatheGeometry "(real \<times> real) list" nat
  | BoxGeometry real real real
  | CircleGeometry real nat
  | IcosahedronGeometry real nat
  | CylinderGeometry real real real nat nat
  | ShapeGeometry "(real \<times> real) list"
  | RotateX real Geometry
  | RotateZ real Geometry

datatype Material = Mat | BellyMat | FinMat | EyeMat | ArmorMat

datatype Kind = Mesh Geometry Material | Group

datatype Object3D =
  Object3D (obj_name: string) (obj_kind: Kind) (obj_position: Vector3)
    (obj_rotation: Vector3) (obj_scale: Vector3) (obj_children: "Object3D list")

definition newMesh :: "Geometry \<Rightarrow> Material \<Rightarrow> Object3D" where
  "newMesh g m =
     Object3D [] (Mesh g m) \<lparr>vx = 0, vy = 0, vz = 0\<rparr> \<lparr>vx = 0, vy = 0, vz = 0\<rparr>
       \<lparr>vx = 1, vy = 1, vz = 1\<rparr> []"

definition newGroup :: Object3D where
  "newGroup =
     Object3D [] Group \<lparr>vx = 0, vy = 0, vz = 0\<rparr> \<lparr>vx = 0, vy = 0, vz = 0\<rparr>
       \<lparr>vx = 1, vy = 1, vz = 1\<rparr> []"

fun setName :: "string \<Rightarrow> Object3D \<Rightarrow> Object3D" where
  "setName n (Object3D nm k p r s cs) = Object3D n k p r s cs"

fun setPosition :: "Vector3 \<Rightarrow> Object3D \<Rightarrow> Object3D" where
  "setPosition p' (Object3D nm k p r s cs) = Object3D nm k p' r s cs"

fun setRotation :: "Vector3 \<Rightarrow> Object3D \<Rightarrow> Object3D" where
  "setRotation r' (Object3D nm k p r s cs) = Object3D nm k p r' s cs"

fun setScale :: "Vector3 \<Rightarrow> Object3D \<Rightarrow> Object3D" where
  "setScale s' (Object3D nm k p r s cs) = Object3D nm k p r s' cs"

fun add :: "Object3D list \<Rightarrow> Object3D \<Rightarrow> Object3D" where
  "add new (Object3D nm k p r s cs) = Object3D nm k p r s (cs @ new)"

text \<open>
  \<open>getObjectByName\<close> of three.js answers the object itself when its name matches and
  otherwise the first match among its children, searched depth first. The object it
  hands back is a reference into the tree: here the path of child indices to it.
\<close>

fun getObjectByName :: "string \<Rightarrow> Object3D \<Rightarrow> nat list option"
  and searchChildren :: "string \<Rightarrow> nat \<Rightarrow> Object3D list \<Rightarrow> nat list option" where
  "getObjectByName n (Object3D nm k p r s cs) =
     (if nm = n then Some [] else searchChildren n 0 cs)"
| "searchChildren n i [] = None"
| "searchChildren n i (c # cs) =
     (case getObjectByName n c of
        Some path \<Rightarrow> Some (i # path)
      | None \<Rightarrow> searchChildren n (Suc i) cs)"

text \<open>An assignment through such a reference changes the object at that path.\<close>

fun updateAt :: "nat list \<Rightarrow> (Object3D \<Rightarrow> Object3D) \<Rightarrow> Object3D \<Rightarrow> Object3D" where
  "updateAt [] f obj = f obj"
| "updateAt (i # path) f (Object3D nm k p r s cs) =
     Object3D nm k p r s (if i < length cs then cs[i := updateAt path f (cs ! i)] else cs)"


subsection \<open>Species dispatch\<close>

text \<open>\<open>String.prototype.includes\<close>, here \<open>includesStr\<close>: the argument occurs somewhere in the string.\<close>

fun includesStr :: "string \<Rightarrow> string \<Rightarrow> bool" where
  "includesStr [] sub = (sub = [])"
| "includesStr (c # cs) sub = (take (length sub) (c # cs) = sub \<or> includesStr cs sub)"

text \<open>Of a \<open>FishType\<close> the generator reads \<open>id\<close> (the field \<open>fish_id\<close>) and \<open>color\<close>.\<close>

record FishType =
  fish_id :: string
  color :: string

definition createFin :: "real \<Rightarrow> real \<Rightarrow> Object3D" where
  "createFin w h = newMesh (ShapeGeometry [(0, 0), (w, h / 2), (0, h), (0, 0)]) FinMat"

definition dragonPath :: "Vector3 list" where
  "dragonPath =
     [\<lparr>vx = 0, vy = 0, vz = 1.5\<rparr>, \<lparr>vx = 0, vy = - 0.3, vz = 0.5\<rparr>,
      \<lparr>vx = 0, vy = 0.3, vz = - 0.5\<rparr>, \<lparr>vx = 0, vy = 0, vz = - 1.5\<rparr>]"

text \<open>
  The sea dragon. \<open>getPointAt\<close> is the arc-length parametrisation of the
  Catmull-Rom curve through \<open>dragonPath\<close>, computed inside three.js: a parameter.
\<close>

definition dragonLeaf :: "(real \<Rightarrow> Vector3) \<Rightarrow> nat \<Rightarrow> Object3D" where
  "dragonLeaf getPointAt i =
     (let point = getPointAt (real i / 4);
          leaf = setPosition \<lparr>vx = vx point, vy = vy point + 0.15, vz = vz point\<rparr>
                   (newMesh (CircleGeometry 0.2 3) FinMat)
      in setRotation \<lparr>vx = 0, vy = 0, vz = (if i mod 2 = 0 then 0.5 else - 0.5)\<rparr> leaf)"

definition buildDragon :: "(real \<Rightarrow> Vector3) \<Rightarrow> Object3D" where
  "buildDragon getPointAt =
     (let body = newMesh (TubeGeometry dragonPath 12 0.2 4 False) Mat;
          head = setPosition \<lparr>vx = 0, vy = 0.1, vz = 1.6\<rparr>
                   (newMesh (RotateX (- pi / 2) (ConeGeometry 0.2 0.8 4)) Mat)
      in add (map (dragonLeaf getPointAt) [0..<5]) (add [head] (add [body] newGroup)))"

definition buildShark :: Object3D where
  "buildShark =
     (let body = setScale \<lparr>vx = 1, vy = 1, vz = 0.8\<rparr>
                   (newMesh (RotateX (pi / 2)
                      (LatheGeometry [(0, 2.5), (0.5, 1.5), (0.7, 0.5), (0.4, - 1.5), (0, - 3.0)] 6)) Mat);
          dorsal = setPosition \<lparr>vx = 0, vy = 0.6, vz = 0.2\<rparr>
                     (setRotation \<lparr>vx = 0, vy = - pi / 2, vz = - pi / 4\<rparr> (createFin 0.8 0.8));
          topTail = setRotation \<lparr>vx = 0, vy = - pi / 2, vz = pi / 3\<rparr> (createFin 1.0 0.6);
          botTail = setRotation \<lparr>vx = 0, vy = - pi / 2, vz = - pi / 3\<rparr> (createFin 0.8 0.5);
          tailGroup = add [topTail, botTail]
                        (setPosition \<lparr>vx = 0, vy = 0, vz = - 2.8\<rparr> (setName ''Tail'' newGroup));
          eye = setPosition \<lparr>vx = 0.35, vy = 0.2, vz = 1.8\<rparr> (newMesh (IcosahedronGeometry 0.08 0) EyeMat);
          eye2 = setPosition \<lparr>vx = - 0.35, vy = 0.2, vz = 1.8\<rparr> eye
      in add [eye2] (add [eye] (add [tailGroup] (add [dorsal] (add [body] newGroup)))))"

definition buildAncient :: Object3D where
  "buildAncient =
     (let head = setPosition \<lparr>vx = 0, vy = 0, vz = 0.8\<rparr> (newMesh (BoxGeometry 1.2 1.2 1.4) ArmorMat);
          body = setPosition \<lparr>vx = 0, vy = 0, vz = - 1.2\<rparr>
                   (newMesh (RotateX (- pi / 2) (ConeGeometry 0.6 2.5 5)) Mat);
          tailFin = setRotation \<lparr>vx = 0, vy = - pi / 2, vz = 0\<rparr> (createFin 0.8 0.8);
          tailGroup = add [tailFin]
                        (setPosition \<lparr>vx = 0, vy = 0, vz = - 2.5\<rparr> (setName ''Tail'' newGroup))
      in add [tailGroup] (add [body] (add [head] newGroup)))"

definition buildArowana :: Object3D where
  "buildArowana =
     (let body = setScale \<lparr>vx = 0.6, vy = 1.2, vz = 1.0\<rparr>
                   (newMesh (RotateZ (pi / 4) (RotateX (pi / 2)
                      (LatheGeometry [(0, 2.0), (0.4, 1.0), (0.4, - 1.0), (0, - 2.0)] 4))) Mat);
          eye = setPosition \<lparr>vx = 0.25, vy = 0.1, vz = 1.6\<rparr> (newMesh (IcosahedronGeometry 0.06 0) EyeMat);
          eye2 = setPosition \<lparr>vx = - 0.25, vy = 0.1, vz = 1.6\<rparr> eye;
          tail = setScale \<lparr>vx = 1, vy = 1, vz = 0.1\<rparr>
                   (setRotation \<lparr>vx = pi / 2, vy = 0, vz = 0\<rparr>
                      (newMesh (CylinderGeometry 0.4 0.1 0.8 4 1) FinMat));
          tailGroup = add [tail]
                        (setPosition \<lparr>vx = 0, vy = 0, vz = - 2.0\<rparr> (setName ''Tail'' newGroup))
      in add [tailGroup] (add [eye2] (add [eye] (add [body] newGroup))))"

definition buildCoelacanth :: Object3D where
  "buildCoelacanth =
     (let body = newMesh (RotateX (pi / 2)
                   (LatheGeometry [(0, 1.5), (0.6, 0.5), (0.6, - 0.5), (0.3, - 1.5), (0, - 2.0)] 8)) Mat;
          finB = setPosition \<lparr>vx = 0, vy = - 0.5, vz = 0\<rparr>
                   (setRotation \<lparr>vx = 0, vy = - pi / 2, vz = pi\<rparr> (createFin 0.6 0.6));
          tail = setRotation \<lparr>vx = 0, vy = - pi / 2, vz = pi / 2\<rparr> (createFin 0.8 0.8);
          tailGroup = add [tail]
                        (setPosition \<lparr>vx = 0, vy = 0, vz = - 2.0\<rparr> (setName ''Tail'' newGroup))
      in add [tailGroup] (add [finB] (add [body] newGroup)))"

definition buildGeneric :: Object3D where
  "buildGeneric =
     (let front = setPosition \<lparr>vx = 0, vy = 0, vz = 0.75\<rparr>
                    (newMesh (RotateX (pi / 2) (ConeGeometry 0.5 1.5 6)) Mat);
          back = setPosition \<lparr>vx = 0, vy = 0, vz = - 0.75\<rparr>
                   (newMesh (RotateX (- pi / 2) (ConeGeometry 0.5 1.5 6)) Mat);
          tail = setRotation \<lparr>vx = 0, vy = - pi / 2, vz = pi / 2\<rparr> (createFin 0.8 0.8);
          tailGroup = add [tail]
                        (setPosition \<lparr>vx = 0, vy = 0, vz = - 1.5\<rparr> (setName ''Tail'' newGroup));
          finL = setRotation \<lparr>vx = 0, vy = - pi / 2, vz = - pi / 3\<rparr>
                   (setPosition \<lparr>vx = 0.4, vy = - 0.2, vz = 0.5\<rparr>
                      (setName ''FinL'' (createFin 0.5 0.5)));
          finR = setRotation \<lparr>vx = 0, vy = - pi / 2, vz = pi / 3\<rparr>
                   (setPosition \<lparr>vx = - 0.4, vy = - 0.2, vz = 0.5\<rparr>
                      (setName ''FinR'' (createFin 0.5 0.5)));
          eye = setPosition \<lparr>vx = 0.3, vy = 0.1, vz = 1.0\<rparr> (newMesh (IcosahedronGeometry 0.08 0) EyeMat);
          eye2 = setPosition \<lparr>vx = - 0.3, vy = 0.1, vz = 1.0\<rparr> eye
      in add [eye2] (add [eye] (add [finR] (add [finL] (add [tailGroup]
           (add [back] (add [front] newGroup)))))))"

definition generateLowPolyFish :: "(real \<Rightarrow> Vector3) \<Rightarrow> 'a FishType_scheme \<Rightarrow> Object3D" where
  "generateLowPolyFish getPointAt fish =
     (if includesStr (fish_id fish) ''dragon'' then buildDragon getPointAt
      else if includesStr (fish_id fish) ''cosmic'' \<or> includesStr (fish_id fish) ''shark'' then buildShark
      else if includesStr (fish_id fish) ''ancient'' \<or> includesStr (fish_id fish) ''dunkle'' then buildAncient
      else if includesStr (fish_id fish) ''rare'' \<or> includesStr (fish_id fish) ''arowana'' then buildArowana
      else if includesStr (fish_id fish) ''legend'' \<or> includesStr (fish_id fish) ''coelacanth'' then buildCoelacanth
      else buildGeneric)"


subsection \<open>The viewer's animation of named parts\<close>

fun setRotationY :: "real \<Rightarrow> Object3D \<Rightarrow> Object3D" where
  "setRotationY a (Object3D nm k p r s cs) = Object3D nm k p (r\<lparr>vy := a\<rparr>) s cs"

fun setRotationZ :: "real \<Rightarrow> Object3D \<Rightarrow> Object3D" where
  "setRotationZ a (Object3D nm k p r s cs) = Object3D nm k p (r\<lparr>vz := a\<rparr>) s cs"

definition tailWag :: "real \<Rightarrow> Object3D \<Rightarrow> Object3D" where
  "tailWag t fishGroup =
     (case getObjectByName ''Tail'' fishGroup of
        None \<Rightarrow> fishGroup
      | Some tail \<Rightarrow> updateAt tail (setRotationY (sin (t * 6) * 0.25)) fishGroup)"

definition finFlap :: "real \<Rightarrow> Object3D \<Rightarrow> Object3D" where
  "finFlap t fishGroup =
     (case getObjectByName ''FinL'' fishGroup of
        None \<Rightarrow> fishGroup
      | Some finL \<Rightarrow>
          (case getObjectByName ''FinR'' fishGroup of
             None \<Rightarrow> fishGroup
           | Some finR \<Rightarrow>
               updateAt finR (setRotationZ (- pi / 3 - sin (t * 10) * 0.15))
                 (updateAt finL (setRotationZ (pi / 3 + sin (t * 10) * 0.15)) fishGroup)))"

fun idleSpin :: "bool \<Rightarrow> real \<Rightarrow> Object3D \<Rightarrow> Object3D" where
  "idleSpin isDragging t (Object3D nm k p r s cs) =
     (if \<not> isDragging
      then Object3D nm k (p\<lparr>vy := sin (t * 1.5) * 0.1\<rparr>) (r\<lparr>vy := vy r + 0.005\<rparr>) s cs
      else Object3D nm k p r s cs)"

definition animateFish :: "bool \<Rightarrow> real \<Rightarrow> Object3D \<Rightarrow> Object3D" where
  "animateFish isDragging t fishGroup = finFlap t (tailWag t (idleSpin isDragging t fishGroup))"


text \<open>The names of an object and of everything below it, depth first.\<close>

fun allNames :: "Object3D \<Rightarrow> string list" where
  "allNames (Object3D nm k p r s cs) = nm # concat (map allNames cs)"


section \<open>SeabedController: the kelp of the vegetation step\<close>

subsection \<open>The position buffer holds 32-bit floats\<close>

text \<open>
  A geometry's \<open>position\<close> attribute is a \<open>Float32Array\<close>: every number written to
  it, by the geometry's constructor or by \<open>setXYZ\<close>, is rounded to the nearest 32-bit
  float, ties to the even mantissa, and \<open>getX\<close>, \<open>getY\<close>, \<open>getZ\<close> read the rounded
  number back. \<open>fround\<close> is that rounding (\<open>Math.fround\<close>): around a non-zero \<open>x\<close>
  the floats are the multiples of \<open>ulp32 x\<close>, a power of two 23 binary places below
  the exponent of \<open>x\<close>, the exponent being held at \<open>-126\<close> for the subnormal numbers.
  Overflow to an infinity, beyond \<open>2 ^ 128\<close>, is not modelled.
\<close>

definition round_even :: "real \<Rightarrow> int" where
  "round_even t =
     (if t - of_int \<lfloor>t\<rfloor> < 1 / 2 then \<lfloor>t\<rfloor>
      else if 1 / 2 < t - of_int \<lfloor>t\<rfloor> then \<lfloor>t\<rfloor> + 1
      else if even \<lfloor>t\<rfloor> then \<lfloor>t\<rfloor> else \<lfloor>t\<rfloor> + 1)"

definition expo32 :: "real \<Rightarrow> int" where
  "expo32 x = max \<lfloor>log 2 \<bar>x\<bar>\<rfloor> (- 126)"

definition ulp32 :: "real \<Rightarrow> real" where
  "ulp32 x = 2 powr (of_int (expo32 x) - 23)"

definition fround :: "real \<Rightarrow> real" where
  "fround x = (if x = 0 then 0 else of_int (round_even (x / ulp32 x)) * ulp32 x)"

definition toFloat32 :: "Vector3 \<Rightarrow> Vector3" where
  "toFloat32 v = \<lparr>vx = fround (vx v), vy = fround (vy v), vz = fround (vz v)\<rparr>"


subsection \<open>The stalk geometry\<close>

text \<open>
  \<open>new THREE.PlaneGeometry(width, height, widthSegments, heightSegments)\<close> lays its
  vertices row by row from the top: row \<open>iy\<close> at \<open>y = height/2 - iy * height/heightSegments\<close>,
  column \<open>ix\<close> at \<open>x = ix * width/widthSegments - width/2\<close>, all with \<open>z = 0\<close>, and
  stores them in the position buffer.
\<close>

definition planeGeometry :: "real \<Rightarrow> real \<Rightarrow> nat \<Rightarrow> nat \<Rightarrow> Vector3 list" where
  "planeGeometry width height widthSegments heightSegments =
     concat (map (\<lambda>iy. map (\<lambda>ix.
         toFloat32
           \<lparr>vx = real ix * (width / real widthSegments) - width / 2,
            vy = - (real iy * (height / real heightSegments) - height / 2),
            vz = 0\<rparr>) [0..<widthSegments + 1]) [0..<heightSegments + 1])"

text \<open>
  The body of the twist loop for one vertex: it reads the vertex from the buffer and
  writes the new one back with \<open>setXYZ\<close>. Then the loop over the buffer.
\<close>

definition twistVertex :: "real \<Rightarrow> Vector3 \<Rightarrow> Vector3" where
  "twistVertex height v =
     (let y = vy v;
          angle = (y / height) * pi;
          x = vx v;
          z = vz v;
          cx = x * cos angle - z * sin angle;
          cz = x * sin angle + z * cos angle
      in toFloat32 \<lparr>vx = cx, vy = y + height / 2, vz = cz\<rparr>)"

definition kelpGeometry :: "real \<Rightarrow> Vector3 list" where
  "kelpGeometry height = map (twistVertex height) (planeGeometry 2 height 1 4)"

text \<open>
  One stalk from its four \<open>Math.random()\<close> draws (each in \<open>[0, 1)\<close>), and the forty
  stalks of \<open>initVegetation\<close> from the list of their draws.
\<close>

record KelpStalk =
  kelp_vertices :: "Vector3 list"
  kelp_position :: Vector3
  phase :: real

definition kelpHeight :: "real \<Rightarrow> real" where
  "kelpHeight rnd = 10 + rnd * 15"

definition makeKelp :: "real \<times> real \<times> real \<times> real \<Rightarrow> KelpStalk" where
  "makeKelp draws =
     (case draws of (r1, r2, r3, r4) \<Rightarrow>
        \<lparr>kelp_vertices = kelpGeometry (kelpHeight r1),
         kelp_position = \<lparr>vx = (r2 - 0.5) * 150, vy = - 25, vz = (r3 - 0.5) * 150 - 20\<rparr>,
         phase = r4 * pi * 2\<rparr>)"

definition initVegetation :: "(real \<times> real \<times> real \<times> real) list \<Rightarrow> KelpStalk list" where
  "initVegetation draws = map makeKelp (take 40 draws)"





section \<open>Concrete inputs\<close>

text \<open>
  A choice of the missing controller methods that does nothing beyond what the
  component itself does, with the rod tip fixed at \<open>(0, 2, 0)\<close>; a mounted
  component; the same component while a cast is under way; three frames.
\<close>

definition demoControllers :: "(unit, unit) Controllers" where
  "demoControllers =
     \<lparr>newRodController = \<lparr>reeling = False\<rparr>,
      newBobberController = \<lparr>visible = False, position = \<lparr>vx = 0, vy = 0, vz = 0\<rparr>\<rparr>,
      newWeatherState = \<lparr>time = 8, weather = CLEAR\<rparr>,
      triggerCast = (\<lambda>r. r),
      getTipWorldPosition = (\<lambda>r. \<lparr>vx = 0, vy = 2, vz = 0\<rparr>),
      rod_update = (\<lambda>l e k r. r),
      rod_animate = (\<lambda>t r. r),
      updateEnchant = (\<lambda>e b. b),
      bobber_animate = (\<lambda>t b. b)\<rparr>"

definition mountedView :: "(unit, unit) ThreeView" where
  "mountedView =
     \<lparr>isCasted = False, targetPos = \<lparr>vx = 0, vy = 0, vz = 0\<rparr>,
      rendererRef = Some WebGLRenderer,
      rodCtrlRef = Some \<lparr>reeling = False\<rparr>,
      bobberCtrlRef = Some \<lparr>visible = False, position = \<lparr>vx = 0, vy = 0, vz = 0\<rparr>\<rparr>,
      weatherCtrlRef = Some \<lparr>time = 8, weather = CLEAR\<rparr>,
      seabedCtrlRef = Some \<lparr>group_visible = True\<rparr>,
      line = Some (\<lparr>vx = 0, vy = 0, vz = 0\<rparr>, \<lparr>vx = 0, vy = 0, vz = 0\<rparr>),
      lastWeatherReportRef = \<lparr>last_weather = CLEAR, hour = -1\<rparr>\<rparr>"

definition castedView :: "(unit, unit) ThreeView" where
  "castedView =
     mountedView\<lparr>isCasted := True, targetPos := \<lparr>vx = 0, vy = 0, vz = - 12\<rparr>,
       bobberCtrlRef := Some \<lparr>visible = True, position = \<lparr>vx = 0, vy = - 0.05, vz = - 11\<rparr>\<rparr>\<rparr>"

definition demoFrames :: "FrameInput list" where
  "demoFrames =
     [\<lparr>frame_time = 1, contextAlive = True, updatedWeather = \<lparr>time = 15 / 2, weather = CLEAR\<rparr>\<rparr>,
      \<lparr>frame_time = 2, contextAlive = True, updatedWeather = \<lparr>time = 31 / 4, weather = CLEAR\<rparr>\<rparr>,
      \<lparr>frame_time = 3, contextAlive = True, updatedWeather = \<lparr>time = 63 / 8, weather = RAIN\<rparr>\<rparr>]"


text \<open>
  A stand-in for the curve's \<open>getPointAt\<close> (the straight line between the end
  points of \<open>dragonPath\<close>), and three species.
\<close>

definition demoPointAt :: "real \<Rightarrow> Vector3" where
  "demoPointAt u = \<lparr>vx = 0, vy = 0, vz = 1.5 - 3 * u\<rparr>"

definition dragonFish :: FishType where
  "dragonFish = \<lparr>fish_id = ''dragon_mutant'', color = ''#2e8b57''\<rparr>"

definition sharkFish :: FishType where
  "sharkFish = \<lparr>fish_id = ''shark'', color = ''#708090''\<rparr>"

definition salmonFish :: FishType where
  "salmonFish = \<lparr>fish_id = ''salmon'', color = ''#fa8072''\<rparr>"




section \<open>Properties of the command API\<close>

lemma observe_reset_v1:
  "observe (reset_v1 s) =
     \<lparr>obs_isCasted = False, obs_targetPos = targetPos s,
      obs_bobberVisible = map_option (\<lambda>_. False) (bobberCtrlRef s),
      obs_reeling = map_option (\<lambda>_. False) (rodCtrlRef s)\<rparr>"
  by (cases "rodCtrlRef s"; cases "bobberCtrlRef s")
     (simp_all add: observe_def reset_v1_def rod_setReeling_def bobber_setVisible_def Let_def)

lemma observe_reset_v2:
  "observe (reset_v2 s) =
     \<lparr>obs_isCasted = False, obs_targetPos = targetPos s,
      obs_bobberVisible = map_option (\<lambda>_. False) (bobberCtrlRef s),
      obs_reeling = map_option (\<lambda>_. False) (rodCtrlRef s)\<rparr>"
  by (cases "rodCtrlRef s"; cases "bobberCtrlRef s")
     (simp_all add: observe_def reset_v2_def rod_setReeling_def bobber_setVisible_def Let_def)

lemma cast_v1_fields:
  "isCasted (cast_v1 K d s) = True"
  "targetPos (cast_v1 K d s) = \<lparr>vx = 0, vy = 0, vz = - 10 - d / 5\<rparr>"
  "rodCtrlRef (cast_v1 K d s) = map_option (triggerCast K) (rodCtrlRef s)"
  "bobberCtrlRef (cast_v1 K d s) =
     map_option (\<lambda>b. b\<lparr>visible := True,
        position := (case rodCtrlRef s of
                       None \<Rightarrow> newVector3
                     | Some r \<Rightarrow> getTipWorldPosition K (triggerCast K r))\<rparr>)
       (bobberCtrlRef s)"
  by (simp_all add: cast_v1_def bobber_setVisible_def Let_def split: option.splits)

lemma cast_v2_fields:
  "isCasted (cast_v2 K d s) = True"
  "targetPos (cast_v2 K d s) = \<lparr>vx = 0, vy = 0, vz = - 10 - d / 5\<rparr>"
  "rodCtrlRef (cast_v2 K d s) = map_option (triggerCast K) (rodCtrlRef s)"
  "bobberCtrlRef (cast_v2 K d s) =
     map_option (\<lambda>b. b\<lparr>visible := True,
        position := (case rodCtrlRef s of
                       None \<Rightarrow> newVector3
                     | Some r \<Rightarrow> getTipWorldPosition K (triggerCast K r))\<rparr>)
       (bobberCtrlRef s)"
  by (simp_all add: cast_v2_def bobber_setVisible_def Let_def split: option.splits)

lemma call_v1_v2: "call_v1 K c s = call_v2 K c s"
  by (cases c)
     (simp_all add: cast_v1_def cast_v2_def reset_v1_def reset_v2_def
        setReeling_v1_def setReeling_v2_def)

text \<open>
  C4. For every distance \<open>d\<close> and every state of the refs, \<open>cast(d)\<close> followed by
  \<open>reset()\<close> leaves \<open>isCasted = false\<close>, the bobber (when there is one) hidden and
  the rod's reeling flag (when there is a rod) cleared, in both variants; the target
  is the one \<open>cast\<close> computed. \<open>reset\<close> is a total function of the refs: called on
  any state, casted or not, it yields the same three cleared flags and keeps the
  target, and with no rod and no bobber it only clears \<open>isCasted\<close>.
\<close>

theorem cast_reset_roundtrip:
  "observe (reset_v2 (cast_v2 K d s)) =
     \<lparr>obs_isCasted = False, obs_targetPos = \<lparr>vx = 0, vy = 0, vz = - 10 - d / 5\<rparr>,
      obs_bobberVisible = map_option (\<lambda>_. False) (bobberCtrlRef s),
      obs_reeling = map_option (\<lambda>_. False) (rodCtrlRef s)\<rparr>
   \<and> observe (reset_v1 (cast_v1 K d s)) = observe (reset_v2 (cast_v2 K d s))
   \<and> observe (reset_v2 s) =
     \<lparr>obs_isCasted = False, obs_targetPos = targetPos s,
      obs_bobberVisible = map_option (\<lambda>_. False) (bobberCtrlRef s),
      obs_reeling = map_option (\<lambda>_. False) (rodCtrlRef s)\<rparr>
   \<and> observe (reset_v1 s) = observe (reset_v2 s)
   \<and> reset_v2 (s\<lparr>rodCtrlRef := None, bobberCtrlRef := None\<rparr>) =
       s\<lparr>isCasted := False, rodCtrlRef := None, bobberCtrlRef := None\<rparr>"
proof -
  have a: "observe (reset_v2 (cast_v2 K d s)) =
     \<lparr>obs_isCasted = False, obs_targetPos = \<lparr>vx = 0, vy = 0, vz = - 10 - d / 5\<rparr>,
      obs_bobberVisible = map_option (\<lambda>_. False) (bobberCtrlRef s),
      obs_reeling = map_option (\<lambda>_. False) (rodCtrlRef s)\<rparr>"
    by (simp add: observe_reset_v2 cast_v2_fields option.map_comp comp_def)
  have b: "observe (reset_v1 (cast_v1 K d s)) =
     \<lparr>obs_isCasted = False, obs_targetPos = \<lparr>vx = 0, vy = 0, vz = - 10 - d / 5\<rparr>,
      obs_bobberVisible = map_option (\<lambda>_. False) (bobberCtrlRef s),
      obs_reeling = map_option (\<lambda>_. False) (rodCtrlRef s)\<rparr>"
    by (simp add: observe_reset_v1 cast_v1_fields option.map_comp comp_def)
  have c: "reset_v2 (s\<lparr>rodCtrlRef := None, bobberCtrlRef := None\<rparr>) =
       s\<lparr>isCasted := False, rodCtrlRef := None, bobberCtrlRef := None\<rparr>"
    by (simp add: reset_v2_def)
  show ?thesis
    using a b c by (simp add: observe_reset_v1 observe_reset_v2)
qed

text \<open>
  C9. The command APIs of the two variants are observationally equivalent: started
  from the same refs, every call sequence of \<open>cast(d)\<close>, \<open>reset()\<close> and
  \<open>setReeling(b)\<close> leaves the same refs in both, and so the same \<open>isCasted\<close>,
  \<open>targetPos\<close>, bobber visibility and rod reeling flag.
\<close>

theorem api_variants_equivalent:
  "run_v1 K cs s = run_v2 K cs s
   \<and> observe (run_v1 K cs s) = observe (run_v2 K cs s)"
proof -
  have "run_v1 K cs s = run_v2 K cs s"
    by (induction cs arbitrary: s) (simp_all add: call_v1_v2)
  then show ?thesis by simp
qed


section \<open>Properties of the frame step\<close>

lemma animate_running:
  "frameRuns v inp s \<Longrightarrow> animate v K on inp s = animate_v1 K on inp s"
  by (cases v) (auto simp: animate_v1_def animate_v2_def)

lemma lineLogic_keeps:
  "isCasted (lineLogic K t s) = isCasted s"
  "rendererRef (lineLogic K t s) = rendererRef s"
  "weatherCtrlRef (lineLogic K t s) = weatherCtrlRef s"
  "lastWeatherReportRef (lineLogic K t s) = lastWeatherReportRef s"
  "(line (lineLogic K t s) = None) = (line s = None)"
  "(bobberCtrlRef (lineLogic K t s) = None) = (bobberCtrlRef s = None)"
  by (cases "bobberCtrlRef s"; simp add: lineLogic_def Let_def)+

lemma controllersAnimate_keeps:
  "isCasted (controllersAnimate K t s) = isCasted s"
  "rendererRef (controllersAnimate K t s) = rendererRef s"
  "weatherCtrlRef (controllersAnimate K t s) = weatherCtrlRef s"
  "lastWeatherReportRef (controllersAnimate K t s) = lastWeatherReportRef s"
  "line (controllersAnimate K t s) = line s"
  "(bobberCtrlRef (controllersAnimate K t s) = None) = (bobberCtrlRef s = None)"
  by (simp_all add: controllersAnimate_def)

lemma weatherStep_keeps:
  "isCasted (fst (weatherStep on inp s)) = isCasted s"
  "rendererRef (fst (weatherStep on inp s)) = rendererRef s"
  "(weatherCtrlRef (fst (weatherStep on inp s)) = None) = (weatherCtrlRef s = None)"
  "line (fst (weatherStep on inp s)) = line s"
  "bobberCtrlRef (fst (weatherStep on inp s)) = bobberCtrlRef s"
  by (cases "weatherCtrlRef s"; simp add: weatherStep_def Let_def)+

lemma animate_v1_keeps:
  "isCasted (fst (animate_v1 K on inp s)) = isCasted s"
  "rendererRef (fst (animate_v1 K on inp s)) = rendererRef s"
  "(weatherCtrlRef (fst (animate_v1 K on inp s)) = None) = (weatherCtrlRef s = None)"
  "(line (fst (animate_v1 K on inp s)) = None) = (line s = None)"
  "(bobberCtrlRef (fst (animate_v1 K on inp s)) = None) = (bobberCtrlRef s = None)"
  by (simp_all add: animate_v1_def Let_def lineLogic_keeps controllersAnimate_keeps weatherStep_keeps)

lemma animate_keeps:
  "isCasted (fst (animate v K on inp s)) = isCasted s"
  "rendererRef (fst (animate v K on inp s)) = rendererRef s"
  "(weatherCtrlRef (fst (animate v K on inp s)) = None) = (weatherCtrlRef s = None)"
  "(line (fst (animate v K on inp s)) = None) = (line s = None)"
  "(bobberCtrlRef (fst (animate v K on inp s)) = None) = (bobberCtrlRef s = None)"
proof -
  have "fst (animate v K on inp s) = fst (animate_v1 K on inp s) \<or> fst (animate v K on inp s) = s"
    by (cases v) (simp_all add: animate_v1_def animate_v2_def)
  then show "isCasted (fst (animate v K on inp s)) = isCasted s"
  "rendererRef (fst (animate v K on inp s)) = rendererRef s"
  "(weatherCtrlRef (fst (animate v K on inp s)) = None) = (weatherCtrlRef s = None)"
  "(line (fst (animate v K on inp s)) = None) = (line s = None)"
  "(bobberCtrlRef (fst (animate v K on inp s)) = None) = (bobberCtrlRef s = None)"
    by (auto simp: animate_v1_keeps)
qed

lemma lineLogic_bobberY:
  "isCasted s \<Longrightarrow> bobberCtrlRef s \<noteq> None \<Longrightarrow> line s \<noteq> None \<Longrightarrow>
   bobberY (lineLogic K t s) = Some (bobble t - 0.05)"
  by (cases "bobberCtrlRef s") (simp_all add: lineLogic_def bobberY_def Let_def)

lemma animate_bobberY:
  assumes "isCasted s" "bobberCtrlRef s \<noteq> None" "line s \<noteq> None" "frameRuns v inp s"
  shows "bobberY (fst (animate v K on inp s)) = Some (bobble (frame_time inp) - 0.05)"
proof -
  let ?s1 = "controllersAnimate K (frame_time inp) (fst (weatherStep on inp s))"
  have "isCasted ?s1" "bobberCtrlRef ?s1 \<noteq> None" "line ?s1 \<noteq> None"
    using assms by (simp_all add: controllersAnimate_keeps weatherStep_keeps)
  then have "bobberY (lineLogic K (frame_time inp) ?s1) = Some (bobble (frame_time inp) - 0.05)"
    by (rule lineLogic_bobberY)
  then show ?thesis
    using assms(4) by (simp add: animate_running animate_v1_def Let_def)
qed

lemma framesRun_Cons:
  assumes "framesRun v (inp # inps) s"
  shows "frameRuns v inp s" and "framesRun v inps (fst (animate v K on inp s))"
proof -
  show "frameRuns v inp s"
    using assms by (cases v) simp_all
  have "rendererRef (fst (animate v K on inp s)) = rendererRef s"
    by (rule animate_keeps)
  then show "framesRun v inps (fst (animate v K on inp s))"
    using assms by (cases v) simp_all
qed

lemma frames_bobberY:
  assumes "isCasted s" "bobberCtrlRef s \<noteq> None" "line s \<noteq> None" "framesRun v inps s"
  shows "map bobberY (frameStates v K on inps s) =
         map (\<lambda>inp. Some (bobble (frame_time inp) - 0.05)) inps"
  using assms
proof (induction inps arbitrary: s)
  case Nil
  then show ?case by simp
next
  case (Cons inp inps)
  let ?s' = "fst (animate v K on inp s)"
  have hd: "bobberY ?s' = Some (bobble (frame_time inp) - 0.05)"
    using Cons.prems(1-3) framesRun_Cons(1)[OF Cons.prems(4)] by (rule animate_bobberY)
  have "map bobberY (frameStates v K on inps ?s') =
         map (\<lambda>inp. Some (bobble (frame_time inp) - 0.05)) inps"
  proof (rule Cons.IH)
    show "isCasted ?s'" using Cons.prems(1) by (simp add: animate_keeps)
    show "bobberCtrlRef ?s' \<noteq> None" using Cons.prems(2) by (auto simp: animate_keeps)
    show "line ?s' \<noteq> None" using Cons.prems(3) by (auto simp: animate_keeps)
    show "framesRun v inps ?s'" using Cons.prems(4) by (rule framesRun_Cons)
  qed
  with hd show ?case by simp
qed

lemma weatherReport_call:
  "snd (weatherReport True w r) =
     (if weather w \<noteq> last_weather r \<or> \<lfloor>time w\<rfloor> \<noteq> hour r then Some (weather w, time w) else None)"
  by (auto simp: weatherReport_def Let_def)

lemma weatherReport_last:
  "fst (weatherReport True w r) = lastReported r [snd (weatherReport True w r)]"
  by (auto simp: weatherReport_def Let_def)

lemma animate_call:
  assumes "weatherCtrlRef s \<noteq> None" "frameRuns v inp s"
  shows "snd (animate v K True inp s) =
      (if weather (updatedWeather inp) \<noteq> last_weather (lastWeatherReportRef s)
          \<or> \<lfloor>time (updatedWeather inp)\<rfloor> \<noteq> hour (lastWeatherReportRef s)
       then Some (weather (updatedWeather inp), time (updatedWeather inp)) else None)"
    and "lastWeatherReportRef (fst (animate v K True inp s)) =
      lastReported (lastWeatherReportRef s) [snd (animate v K True inp s)]"
proof -
  obtain w where w: "weatherCtrlRef s = Some w" using assms(1) by auto
  have 1: "snd (animate v K True inp s) =
      snd (weatherReport True (updatedWeather inp) (lastWeatherReportRef s))"
    using assms(2) w by (simp add: animate_running animate_v1_def weatherStep_def Let_def)
  have 2: "lastWeatherReportRef (fst (animate v K True inp s)) =
      fst (weatherReport True (updatedWeather inp) (lastWeatherReportRef s))"
    using assms(2) w
    by (simp add: animate_running animate_v1_def weatherStep_def Let_def
        lineLogic_keeps controllersAnimate_keeps)
  show "snd (animate v K True inp s) =
      (if weather (updatedWeather inp) \<noteq> last_weather (lastWeatherReportRef s)
          \<or> \<lfloor>time (updatedWeather inp)\<rfloor> \<noteq> hour (lastWeatherReportRef s)
       then Some (weather (updatedWeather inp), time (updatedWeather inp)) else None)"
    using 1 by (simp only: weatherReport_call)
  show "lastWeatherReportRef (fst (animate v K True inp s)) =
      lastReported (lastWeatherReportRef s) [snd (animate v K True inp s)]"
    using 1 2 by (simp only: weatherReport_last)
qed

lemma lastReported_Cons: "lastReported r (c # cs) = lastReported (lastReported r [c]) cs"
  by (cases c) auto

lemma frames_weather:
  assumes "weatherCtrlRef s \<noteq> None" "framesRun v inps s" "i < length inps"
  shows "frameCalls v K True inps s ! i =
      (let r = lastReported (lastWeatherReportRef s) (take i (frameCalls v K True inps s));
           w = updatedWeather (inps ! i)
       in if weather w \<noteq> last_weather r \<or> \<lfloor>time w\<rfloor> \<noteq> hour r
          then Some (weather w, time w) else None)"
  using assms
proof (induction inps arbitrary: s i)
  case Nil
  then show ?case by simp
next
  case (Cons inp inps)
  let ?s' = "fst (animate v K True inp s)"
  note run = framesRun_Cons[OF Cons.prems(2)]
  show ?case
  proof (cases i)
    case 0
    then show ?thesis
      using animate_call(1)[OF Cons.prems(1) run(1)] by (simp add: Let_def)
  next
    case (Suc j)
    have w': "weatherCtrlRef ?s' \<noteq> None"
      using Cons.prems(1) by (auto simp: animate_keeps)
    have j: "j < length inps" using Cons.prems(3) Suc by simp
    have last: "lastWeatherReportRef ?s' =
      lastReported (lastWeatherReportRef s) [snd (animate v K True inp s)]"
      using Cons.prems(1) run(1) by (rule animate_call(2))
    have "lastReported (lastWeatherReportRef s)
            (snd (animate v K True inp s) # take j (frameCalls v K True inps ?s')) =
          lastReported (lastWeatherReportRef ?s') (take j (frameCalls v K True inps ?s'))"
      by (subst lastReported_Cons) (simp only: last)
    then show ?thesis
      using Cons.IH[OF w' run(2) j] Suc by (simp add: Let_def)
  qed
qed


section \<open>Properties of cast\<close>

text \<open>
  C5 (as amended). \<open>cast(distance)\<close> sets \<open>isCasted = true\<close> and the target
  \<open>(0, 0, -10 - distance/5)\<close>, a function of the distance only; when there is a
  bobber controller it makes the bobber visible and puts it at the rod-tip world
  position (at the zero vector when there is no rod controller), and it triggers the
  rod's cast when there is a rod. It does the same whether or not a cast is under way:
  a second call also triggers the rod again and moves the bobber back to the rod tip.
  Nothing else in the refs changes.
\<close>

theorem cast_effect:
  "cast_v2 K d s =
     s\<lparr>isCasted := True,
       targetPos := \<lparr>vx = 0, vy = 0, vz = - 10 - d / 5\<rparr>,
       rodCtrlRef := map_option (triggerCast K) (rodCtrlRef s),
       bobberCtrlRef :=
         map_option (\<lambda>b. b\<lparr>visible := True,
            position := (case rodCtrlRef s of
                           None \<Rightarrow> newVector3
                         | Some r \<Rightarrow> getTipWorldPosition K (triggerCast K r))\<rparr>)
           (bobberCtrlRef s)\<rparr>"
  by (cases "rodCtrlRef s"; cases "bobberCtrlRef s")
     (simp_all add: cast_v2_def bobber_setVisible_def Let_def)

text \<open>
  C5 as stated fails: with a cast under way and the bobber on its way to the target,
  \<open>cast\<close> changes more than the target, since the bobber jumps back to the rod tip.
\<close>

theorem cast_again_moves_bobber:
  "isCasted castedView
   \<and> cast_v2 demoControllers 10 castedView \<noteq>
       castedView\<lparr>targetPos := \<lparr>vx = 0, vy = 0, vz = - 10 - 10 / 5\<rparr>\<rparr>
   \<and> map_option position (bobberCtrlRef castedView) = Some \<lparr>vx = 0, vy = - 0.05, vz = - 11\<rparr>
   \<and> map_option position (bobberCtrlRef (cast_v2 demoControllers 10 castedView)) =
       Some \<lparr>vx = 0, vy = 2, vz = 0\<rparr>"
proof -
  have a: "map_option position (bobberCtrlRef (cast_v2 demoControllers 10 castedView)) =
       Some \<lparr>vx = 0, vy = 2, vz = 0\<rparr>"
    by (simp add: cast_v2_fields castedView_def mountedView_def demoControllers_def)
  have b: "map_option position
        (bobberCtrlRef (castedView\<lparr>targetPos := \<lparr>vx = 0, vy = 0, vz = - 10 - 10 / 5\<rparr>\<rparr>)) =
       Some \<lparr>vx = 0, vy = - 0.05, vz = - 11\<rparr>"
    by (simp add: castedView_def mountedView_def)
  have "cast_v2 demoControllers 10 castedView \<noteq>
       castedView\<lparr>targetPos := \<lparr>vx = 0, vy = 0, vz = - 10 - 10 / 5\<rparr>\<rparr>"
  proof
    assume "cast_v2 demoControllers 10 castedView =
       castedView\<lparr>targetPos := \<lparr>vx = 0, vy = 0, vz = - 10 - 10 / 5\<rparr>\<rparr>"
    then have "map_option position (bobberCtrlRef (cast_v2 demoControllers 10 castedView)) =
        map_option position
          (bobberCtrlRef (castedView\<lparr>targetPos := \<lparr>vx = 0, vy = 0, vz = - 10 - 10 / 5\<rparr>\<rparr>))"
      by (rule arg_cong)
    then have "Some \<lparr>vx = 0, vy = 2, vz = 0\<rparr> = Some \<lparr>vx = 0, vy = - 0.05, vz = - (11::real)\<rparr>"
      by (simp only: a b)
    then show False by simp
  qed
  moreover have "isCasted castedView" by (simp add: castedView_def)
  ultimately show ?thesis
    using a b by simp
qed


section \<open>Properties of the first render\<close>

lemma mount_seabed:
  assumes "containerPresent env" and "webglAvailable env"
  shows "seabedCtrlRef (mountEffect K env on inp initialView) = Some newSeabedController"
proof -
  let ?s = "initialView\<lparr>rendererRef := Some WebGLRenderer,
                rodCtrlRef := Some (newRodController K),
                bobberCtrlRef := Some (newBobberController K),
                seabedCtrlRef := Some newSeabedController,
                line := Some (newVector3, newVector3),
                weatherCtrlRef := Some (newWeatherState K)\<rparr>"
  have "seabedCtrlRef (fst (animate_v2 K on inp ?s)) = seabedCtrlRef ?s"
    by (simp add: animate_v2_def weatherStep_def controllersAnimate_def lineLogic_def Let_def
        initialView_def)
  then show ?thesis
    using assms by (simp add: mountEffect_def initialView_def)
qed

lemma mount_failed:
  assumes "\<not> containerPresent env \<or> \<not> webglAvailable env"
  shows "mountEffect K env on inp initialView = initialView"
  using assms by (auto simp: mountEffect_def)

text \<open>
  C6. After one full scene build (a container to mount in, and a renderer that could
  be created) followed by the effects of the first render, the seabed group's
  visibility flag is true if and only if the map prop is \<open>atlantis\<close>; the same holds
  after any later run of the map effect.
\<close>

theorem seabed_visible_iff_atlantis:
  assumes "containerPresent env" and "webglAvailable env"
  shows "map_option group_visible (seabedCtrlRef (firstRender K env on inp p)) =
           Some (map_prop p = ''atlantis'')
         \<and> map_option group_visible (seabedCtrlRef (mapEffect m (firstRender K env on inp p))) =
           Some (m = ''atlantis'')"
  using mount_seabed [OF assms, of K on inp]
  by (simp add: firstRender_def mapEffect_def rodEffect_def seabed_setVisible_def
      newSeabedController_def)

theorem seabed_visible_iff_atlantis_witness:
  "containerPresent \<lparr>containerPresent = True, webglAvailable = True\<rparr>
   \<and> webglAvailable \<lparr>containerPresent = True, webglAvailable = True\<rparr>
   \<and> map_option group_visible (seabedCtrlRef
        (firstRender demoControllers \<lparr>containerPresent = True, webglAvailable = True\<rparr> True
           (hd demoFrames)
           \<lparr>rodLevel = 1, enchant = ''none'', boatType = ''wood'', rodSkin = ''default'',
            map_prop = ''atlantis''\<rparr>)) = Some True
   \<and> map_option group_visible (seabedCtrlRef
        (firstRender demoControllers \<lparr>containerPresent = True, webglAvailable = True\<rparr> True
           (hd demoFrames)
           \<lparr>rodLevel = 1, enchant = ''none'', boatType = ''wood'', rodSkin = ''default'',
            map_prop = ''lake''\<rparr>)) = Some False"
proof -
  let ?env = "\<lparr>containerPresent = True, webglAvailable = True\<rparr>"
  have h1: "containerPresent ?env" by simp
  have h2: "webglAvailable ?env" by simp
  show ?thesis
    using seabed_visible_iff_atlantis [OF h1 h2, of demoControllers True "hd demoFrames"
        "\<lparr>rodLevel = 1, enchant = ''none'', boatType = ''wood'', rodSkin = ''default'',
            map_prop = ''atlantis''\<rparr>" "''atlantis''"]
      seabed_visible_iff_atlantis [OF h1 h2, of demoControllers True "hd demoFrames"
        "\<lparr>rodLevel = 1, enchant = ''none'', boatType = ''wood'', rodSkin = ''default'',
            map_prop = ''lake''\<rparr>" "''lake''"]
    by simp
qed


section \<open>Properties of a run of frames\<close>

text \<open>
  C10. While a cast is under way (with a bobber and a line, and every frame getting
  past the context check), the bobber's y-coordinate after each frame is
  \<open>sin(time*2.5)*0.04 + cos(time*1.5)*0.02 - 0.05\<close>, whatever the target: a run
  from the same refs with another \<open>targetPos\<close> has the same bobber y on every frame.
\<close>

theorem bobber_y_function_of_time:
  assumes "isCasted s" and "bobberCtrlRef s \<noteq> None" and "line s \<noteq> None"
    and "framesRun v inps s"
  shows "map bobberY (frameStates v K on inps s) =
           map (\<lambda>inp. Some (sin (frame_time inp * 2.5) * 0.04
                              + cos (frame_time inp * 1.5) * 0.02 - 0.05)) inps
         \<and> map bobberY (frameStates v K on inps (s\<lparr>targetPos := p\<rparr>)) =
           map bobberY (frameStates v K on inps s)"
proof -
  have run': "framesRun v inps (s\<lparr>targetPos := p\<rparr>)"
    using assms(4) by (cases v) simp_all
  have 1: "map bobberY (frameStates v K on inps s) =
           map (\<lambda>inp. Some (bobble (frame_time inp) - 0.05)) inps"
    using assms by (rule frames_bobberY)
  have 2: "map bobberY (frameStates v K on inps (s\<lparr>targetPos := p\<rparr>)) =
           map (\<lambda>inp. Some (bobble (frame_time inp) - 0.05)) inps"
    using assms(1-3) run' by (intro frames_bobberY) simp_all
  show ?thesis
    using 1 2 by (simp add: bobble_def)
qed

theorem bobber_y_function_of_time_witness:
  "isCasted (cast_v2 demoControllers 10 mountedView)
   \<and> bobberCtrlRef (cast_v2 demoControllers 10 mountedView) \<noteq> None
   \<and> line (cast_v2 demoControllers 10 mountedView) \<noteq> None
   \<and> framesRun WithMap demoFrames (cast_v2 demoControllers 10 mountedView)
   \<and> map bobberY (frameStates WithMap demoControllers True demoFrames
          (cast_v2 demoControllers 10 mountedView)) =
       [Some (sin (1 * 2.5) * 0.04 + cos (1 * 1.5) * 0.02 - 0.05),
        Some (sin (2 * 2.5) * 0.04 + cos (2 * 1.5) * 0.02 - 0.05),
        Some (sin (3 * 2.5) * 0.04 + cos (3 * 1.5) * 0.02 - 0.05)]
   \<and> map bobberY (frameStates WithMap demoControllers True demoFrames
          (cast_v2 demoControllers 50 mountedView)) =
       map bobberY (frameStates WithMap demoControllers True demoFrames
          (cast_v2 demoControllers 10 mountedView))"
proof -
  let ?s = "cast_v2 demoControllers 10 mountedView"
  have h1: "isCasted ?s" by (simp add: cast_v2_fields)
  have h2: "bobberCtrlRef ?s \<noteq> None" by (simp add: cast_v2_fields mountedView_def)
  have h3: "line ?s \<noteq> None" by (simp add: cast_v2_def Let_def mountedView_def bobber_setVisible_def)
  have h4: "framesRun WithMap demoFrames ?s"
    by (simp add: cast_v2_def Let_def mountedView_def bobber_setVisible_def demoFrames_def)
  have e: "cast_v2 demoControllers 50 mountedView = ?s\<lparr>targetPos := \<lparr>vx = 0, vy = 0, vz = - 20\<rparr>\<rparr>"
    by (simp add: cast_v2_def Let_def mountedView_def bobber_setVisible_def)
  show ?thesis
    using bobber_y_function_of_time [OF h1 h2 h3 h4, of demoControllers True "\<lparr>vx = 0, vy = 0, vz = - 20\<rparr>"]
      h1 h2 h3 h4
    by (simp add: e demoFrames_def)
qed

text \<open>
  C8. With the callback supplied and a weather controller present, in any run of
  frames that get past the context check, \<open>onWeatherUpdate\<close> is invoked on a frame
  if and only if that frame's weather differs from the last reported weather or the
  floor of its time differs from the last reported hour (before any report: the
  initial \<open>CLEAR\<close> and \<open>-1\<close>); when invoked it gets that frame's weather and time.
\<close>

theorem weather_report_edge_triggered:
  assumes "weatherCtrlRef s \<noteq> None" and "framesRun v inps s" and "i < length inps"
  shows "(frameCalls v K True inps s ! i \<noteq> None) =
           (weather (updatedWeather (inps ! i)) \<noteq>
              last_weather (lastReported (lastWeatherReportRef s) (take i (frameCalls v K True inps s)))
            \<or> \<lfloor>time (updatedWeather (inps ! i))\<rfloor> \<noteq>
              hour (lastReported (lastWeatherReportRef s) (take i (frameCalls v K True inps s))))
         \<and> frameCalls v K True inps s ! i \<in>
             {None, Some (weather (updatedWeather (inps ! i)), time (updatedWeather (inps ! i)))}"
  using frames_weather [OF assms, of K] by (simp add: Let_def)

theorem weather_report_edge_triggered_witness:
  "weatherCtrlRef mountedView \<noteq> None \<and> framesRun WithMap demoFrames mountedView
   \<and> frameCalls WithMap demoControllers True demoFrames mountedView =
       [Some (CLEAR, 15 / 2), None, Some (RAIN, 63 / 8)]
   \<and> lastReported (lastWeatherReportRef mountedView)
        (take 1 (frameCalls WithMap demoControllers True demoFrames mountedView)) =
       \<lparr>last_weather = CLEAR, hour = 7\<rparr>
   \<and> \<lfloor>time (updatedWeather (demoFrames ! 1))\<rfloor> = 7
   \<and> weather (updatedWeather (demoFrames ! 1)) = CLEAR"
proof -
  have h1: "weatherCtrlRef mountedView \<noteq> None" by (simp add: mountedView_def)
  have h2: "framesRun WithMap demoFrames mountedView" by (simp add: mountedView_def demoFrames_def)
  have h3: "(1::nat) < length demoFrames" by (simp add: demoFrames_def)
  have c: "frameCalls WithMap demoControllers True demoFrames mountedView =
       [Some (CLEAR, 15 / 2), None, Some (RAIN, 63 / 8)]"
    by (simp add: demoFrames_def mountedView_def animate_v2_def weatherStep_def weatherReport_def
        controllersAnimate_def lineLogic_def Let_def)
  show ?thesis
    using weather_report_edge_triggered [OF h1 h2 h3, of demoControllers] h1 h2 c
    by (simp add: demoFrames_def mountedView_def)
qed



section \<open>Properties of the fish generator\<close>

lemma upt5: "[0..<5] = [0, 1, 2, 3, 4]"
  by (simp add: upt_rec)

lemma upt2: "[0..<2] = [0, 1]"
  by (simp add: upt_rec)

lemma includesStr_iff: "includesStr s sub \<longleftrightarrow> (\<exists>pre post. s = pre @ sub @ post)"
proof (induction s)
  case Nil
  then show ?case by auto
next
  case (Cons c cs)
  show ?case
  proof
    assume "includesStr (c # cs) sub"
    then consider "take (length sub) (c # cs) = sub" | "includesStr cs sub" by auto
    then show "\<exists>pre post. c # cs = pre @ sub @ post"
    proof cases
      case 1
      then have "c # cs = [] @ sub @ drop (length sub) (c # cs)"
        by (metis append_Nil append_take_drop_id)
      then show ?thesis by blast
    next
      case 2
      then obtain pre post where "cs = pre @ sub @ post" using Cons.IH by auto
      then have "c # cs = (c # pre) @ sub @ post" by simp
      then show ?thesis by blast
    qed
  next
    assume "\<exists>pre post. c # cs = pre @ sub @ post"
    then obtain pre post where e: "c # cs = pre @ sub @ post" by auto
    show "includesStr (c # cs) sub"
    proof (cases "pre = []")
      case True
      then have "take (length sub) (c # cs) = sub" using e by simp
      then show ?thesis by simp
    next
      case False
      then obtain pre' where "pre = c # pre'" using e by (cases pre) auto
      then have "cs = pre' @ sub @ post" using e by simp
      then have "includesStr cs sub" using Cons.IH by auto
      then show ?thesis by simp
    qed
  qed
qed

lemma buildGeneric_names:
  "allNames buildGeneric = [[], [], [], ''Tail'', [], ''FinL'', ''FinR'', [], []]"
  by (simp add: buildGeneric_def Let_def newGroup_def newMesh_def createFin_def)

lemma buildGeneric_lookup:
  "getObjectByName ''Tail'' buildGeneric = Some [2]"
  "getObjectByName ''FinL'' buildGeneric = Some [3]"
  "getObjectByName ''FinR'' buildGeneric = Some [4]"
  by (simp_all add: buildGeneric_def Let_def newGroup_def newMesh_def createFin_def)

lemma buildGeneric_parts:
  "obj_name (obj_children buildGeneric ! 2) = ''Tail''"
  "obj_name (obj_children buildGeneric ! 3) = ''FinL''"
  "obj_name (obj_children buildGeneric ! 4) = ''FinR''"
  by (simp_all add: buildGeneric_def Let_def newGroup_def newMesh_def createFin_def)

lemma buildDragon_names:
  "allNames (buildDragon P) = [[], [], [], [], [], [], [], []]"
  by (simp add: buildDragon_def Let_def newGroup_def newMesh_def dragonLeaf_def upt5)

lemma buildDragon_children:
  "obj_children (buildDragon P) =
     newMesh (TubeGeometry dragonPath 12 0.2 4 False) Mat
     # setPosition \<lparr>vx = 0, vy = 0.1, vz = 1.6\<rparr>
         (newMesh (RotateX (- pi / 2) (ConeGeometry 0.2 0.8 4)) Mat)
     # map (dragonLeaf P) [0..<5]"
  by (simp add: buildDragon_def Let_def newGroup_def newMesh_def)

lemma buildDragon_lookup:
  "getObjectByName ''Tail'' (buildDragon P) = None"
  "getObjectByName ''FinL'' (buildDragon P) = None"
  "getObjectByName ''FinR'' (buildDragon P) = None"
  by (simp_all add: buildDragon_def Let_def newGroup_def newMesh_def dragonLeaf_def upt5)

lemma finless_lookup:
  "getObjectByName ''FinL'' buildShark = None" "getObjectByName ''FinR'' buildShark = None"
  "getObjectByName ''FinL'' buildAncient = None" "getObjectByName ''FinR'' buildAncient = None"
  "getObjectByName ''FinL'' buildArowana = None" "getObjectByName ''FinR'' buildArowana = None"
  "getObjectByName ''FinL'' buildCoelacanth = None" "getObjectByName ''FinR'' buildCoelacanth = None"
  by (simp_all add: buildShark_def buildAncient_def buildArowana_def buildCoelacanth_def
      Let_def newGroup_def newMesh_def createFin_def)

lemma tailed_lookup:
  "getObjectByName ''Tail'' buildShark = Some [2]"
  "getObjectByName ''Tail'' buildAncient = Some [2]"
  "getObjectByName ''Tail'' buildArowana = Some [3]"
  "getObjectByName ''Tail'' buildCoelacanth = Some [2]"
  by (simp_all add: buildShark_def buildAncient_def buildArowana_def buildCoelacanth_def
      Let_def newGroup_def newMesh_def createFin_def)

lemma tailWag_missing: "getObjectByName ''Tail'' g = None \<Longrightarrow> tailWag t g = g"
  by (simp add: tailWag_def)

lemma finFlap_missing:
  "getObjectByName ''FinL'' g = None \<or> getObjectByName ''FinR'' g = None \<Longrightarrow> finFlap t g = g"
  by (auto simp: finFlap_def split: option.splits)

lemma idleSpin_dragging: "idleSpin True t g = g"
  by (cases g) simp

lemma generate_dragon:
  "includesStr (fish_id fish) ''dragon'' \<Longrightarrow> generateLowPolyFish P fish = buildDragon P"
  by (simp add: generateLowPolyFish_def)

lemma generate_cases:
  "generateLowPolyFish P fish \<in>
     {buildDragon P, buildShark, buildAncient, buildArowana, buildCoelacanth, buildGeneric}"
  by (simp add: generateLowPolyFish_def)

lemma finless_species:
  assumes "g \<in> {buildDragon P, buildShark, buildAncient, buildArowana, buildCoelacanth, buildGeneric}"
    and "g \<noteq> buildGeneric"
  shows "getObjectByName ''FinL'' g = None \<and> getObjectByName ''FinR'' g = None"
proof -
  from assms consider "g = buildDragon P" | "g = buildShark" | "g = buildAncient"
    | "g = buildArowana" | "g = buildCoelacanth"
    by blast
  then show ?thesis
    by cases (simp_all only: buildDragon_lookup finless_lookup simp_thms)
qed

text \<open>
  C2 (as amended). For every species id containing \<open>dragon\<close> the generated group's
  first part, the body, is a tube along \<open>dragonPath\<close> with 12 tubular and exactly 4
  radial segments, and its second part, the head, is a 4-sided cone mesh at
  \<open>(0, 0.1, 1.6)\<close>, forward of the path's front end point \<open>(0, 0, 1.5)\<close>. The head
  carries no name: every object of the dragon mesh has the empty name.
\<close>

theorem dragon_body_and_head:
  assumes "includesStr (fish_id fish) ''dragon''"
  shows "obj_children (generateLowPolyFish P fish) ! 0 =
           newMesh (TubeGeometry dragonPath 12 0.2 4 False) Mat
       \<and> obj_children (generateLowPolyFish P fish) ! 1 =
           setPosition \<lparr>vx = 0, vy = 0.1, vz = 1.6\<rparr>
             (newMesh (RotateX (- pi / 2) (ConeGeometry 0.2 0.8 4)) Mat)
       \<and> vz (hd dragonPath) < vz (obj_position (obj_children (generateLowPolyFish P fish) ! 1))
       \<and> obj_name (obj_children (generateLowPolyFish P fish) ! 1) = []
       \<and> set (allNames (generateLowPolyFish P fish)) = {[]}"
proof -
  have g: "generateLowPolyFish P fish = buildDragon P"
    using assms by (rule generate_dragon)
  have "vz (hd dragonPath) < vz (obj_position (obj_children (buildDragon P) ! 1))"
    by (simp add: buildDragon_children newMesh_def dragonPath_def)
  moreover have "obj_name (obj_children (buildDragon P) ! 1) = []"
    by (simp add: buildDragon_children newMesh_def)
  ultimately show ?thesis
    by (simp add: g buildDragon_children buildDragon_names)
qed

theorem dragon_body_and_head_witness:
  "includesStr (fish_id dragonFish) ''dragon''
   \<and> obj_kind (obj_children (generateLowPolyFish demoPointAt dragonFish) ! 0) =
       Mesh (TubeGeometry dragonPath 12 0.2 4 False) Mat
   \<and> obj_position (obj_children (generateLowPolyFish demoPointAt dragonFish) ! 1) =
       \<lparr>vx = 0, vy = 0.1, vz = 1.6\<rparr>
   \<and> hd dragonPath = \<lparr>vx = 0, vy = 0, vz = 1.5\<rparr>"
proof -
  have h: "includesStr (fish_id dragonFish) ''dragon''" by (simp add: dragonFish_def)
  show ?thesis
    using dragon_body_and_head [OF h, of demoPointAt] h
    by (simp add: newMesh_def dragonPath_def)
qed

text \<open>
  C2 as stated fails in asking for a named head part: for the species
  \<open>dragon_mutant\<close> the head's name, like every name in the mesh, is the empty string.
\<close>

theorem dragon_head_unnamed:
  "includesStr (fish_id dragonFish) ''dragon''
   \<and> obj_name (obj_children (generateLowPolyFish demoPointAt dragonFish) ! 1) = []
   \<and> allNames (generateLowPolyFish demoPointAt dragonFish) = [[], [], [], [], [], [], [], []]"
proof -
  have h: "includesStr (fish_id dragonFish) ''dragon''" by (simp add: dragonFish_def)
  have g: "generateLowPolyFish demoPointAt dragonFish = buildDragon demoPointAt"
    using h by (rule generate_dragon)
  show ?thesis
    using h by (simp add: g buildDragon_names buildDragon_children newMesh_def)
qed

text \<open>
  C3. For every species id that contains none of the keywords \<open>dragon\<close>, \<open>cosmic\<close>,
  \<open>shark\<close>, \<open>ancient\<close>, \<open>dunkle\<close>, \<open>rare\<close>, \<open>arowana\<close>, \<open>legend\<close>,
  \<open>coelacanth\<close>, the generator takes the generic branch, and the names given in
  the resulting group are exactly \<open>Tail\<close>, \<open>FinL\<close> and \<open>FinR\<close>: its third, fourth
  and fifth parts, each found by \<open>getObjectByName\<close>.
\<close>

theorem generic_fallback:
  assumes "\<not> includesStr (fish_id fish) ''dragon''"
    and "\<not> includesStr (fish_id fish) ''cosmic''" and "\<not> includesStr (fish_id fish) ''shark''"
    and "\<not> includesStr (fish_id fish) ''ancient''" and "\<not> includesStr (fish_id fish) ''dunkle''"
    and "\<not> includesStr (fish_id fish) ''rare''" and "\<not> includesStr (fish_id fish) ''arowana''"
    and "\<not> includesStr (fish_id fish) ''legend''" and "\<not> includesStr (fish_id fish) ''coelacanth''"
  shows "generateLowPolyFish P fish = buildGeneric
       \<and> filter (\<lambda>n. n \<noteq> []) (allNames (generateLowPolyFish P fish)) = [''Tail'', ''FinL'', ''FinR'']
       \<and> getObjectByName ''Tail'' (generateLowPolyFish P fish) = Some [2]
       \<and> getObjectByName ''FinL'' (generateLowPolyFish P fish) = Some [3]
       \<and> getObjectByName ''FinR'' (generateLowPolyFish P fish) = Some [4]
       \<and> map obj_name (obj_children (generateLowPolyFish P fish)) =
           [[], [], ''Tail'', ''FinL'', ''FinR'', [], []]"
proof -
  have g: "generateLowPolyFish P fish = buildGeneric"
    using assms by (simp add: generateLowPolyFish_def)
  have "map obj_name (obj_children buildGeneric) = [[], [], ''Tail'', ''FinL'', ''FinR'', [], []]"
    by (simp add: buildGeneric_def Let_def newGroup_def newMesh_def createFin_def)
  then show ?thesis
    by (simp add: g buildGeneric_names buildGeneric_lookup)
qed

theorem generic_fallback_witness:
  "\<not> includesStr (fish_id salmonFish) ''dragon''
   \<and> \<not> includesStr (fish_id salmonFish) ''cosmic'' \<and> \<not> includesStr (fish_id salmonFish) ''shark''
   \<and> \<not> includesStr (fish_id salmonFish) ''ancient'' \<and> \<not> includesStr (fish_id salmonFish) ''dunkle''
   \<and> \<not> includesStr (fish_id salmonFish) ''rare'' \<and> \<not> includesStr (fish_id salmonFish) ''arowana''
   \<and> \<not> includesStr (fish_id salmonFish) ''legend'' \<and> \<not> includesStr (fish_id salmonFish) ''coelacanth''
   \<and> generateLowPolyFish demoPointAt salmonFish = buildGeneric
   \<and> map obj_name (obj_children (generateLowPolyFish demoPointAt salmonFish)) =
       [[], [], ''Tail'', ''FinL'', ''FinR'', [], []]"
proof -
  have h: "\<not> includesStr (fish_id salmonFish) ''dragon''"
    "\<not> includesStr (fish_id salmonFish) ''cosmic''" "\<not> includesStr (fish_id salmonFish) ''shark''"
    "\<not> includesStr (fish_id salmonFish) ''ancient''" "\<not> includesStr (fish_id salmonFish) ''dunkle''"
    "\<not> includesStr (fish_id salmonFish) ''rare''" "\<not> includesStr (fish_id salmonFish) ''arowana''"
    "\<not> includesStr (fish_id salmonFish) ''legend''" "\<not> includesStr (fish_id salmonFish) ''coelacanth''"
    by (simp_all add: salmonFish_def)
  show ?thesis
    using generic_fallback [OF h, of demoPointAt] h by blast
qed

text \<open>
  C7. For every generated mesh: when the lookup of \<open>Tail\<close> finds nothing, the tail
  update leaves the whole group as it was, and when the lookup of \<open>FinL\<close> or of
  \<open>FinR\<close> finds nothing, so does the fin update; the updates are total functions,
  so nothing is raised. The sea dragon has none of the three parts (with the viewer
  being dragged, a whole frame leaves its group unchanged), and every species but
  the generic one lacks both fins.
\<close>

theorem missing_part_is_noop:
  "(getObjectByName ''Tail'' (generateLowPolyFish P fish) = None \<longrightarrow>
      tailWag t (generateLowPolyFish P fish) = generateLowPolyFish P fish)
   \<and> (getObjectByName ''FinL'' (generateLowPolyFish P fish) = None
        \<or> getObjectByName ''FinR'' (generateLowPolyFish P fish) = None \<longrightarrow>
      finFlap t (generateLowPolyFish P fish) = generateLowPolyFish P fish)
   \<and> (includesStr (fish_id fish) ''dragon'' \<longrightarrow>
        getObjectByName ''Tail'' (generateLowPolyFish P fish) = None
      \<and> getObjectByName ''FinL'' (generateLowPolyFish P fish) = None
      \<and> getObjectByName ''FinR'' (generateLowPolyFish P fish) = None
      \<and> animateFish True t (generateLowPolyFish P fish) = generateLowPolyFish P fish)
   \<and> (generateLowPolyFish P fish \<noteq> buildGeneric \<longrightarrow>
        getObjectByName ''FinL'' (generateLowPolyFish P fish) = None
      \<and> getObjectByName ''FinR'' (generateLowPolyFish P fish) = None)"
proof -
  let ?g = "generateLowPolyFish P fish"
  have 1: "getObjectByName ''Tail'' ?g = None \<longrightarrow> tailWag t ?g = ?g"
    by (simp add: tailWag_missing)
  have 2: "getObjectByName ''FinL'' ?g = None \<or> getObjectByName ''FinR'' ?g = None \<longrightarrow>
      finFlap t ?g = ?g"
    using finFlap_missing by blast
  have 3: "includesStr (fish_id fish) ''dragon'' \<longrightarrow>
        getObjectByName ''Tail'' ?g = None \<and> getObjectByName ''FinL'' ?g = None
      \<and> getObjectByName ''FinR'' ?g = None \<and> animateFish True t ?g = ?g"
    by (simp add: generate_dragon buildDragon_lookup animateFish_def idleSpin_dragging
        tailWag_missing finFlap_missing)
  have 4: "?g \<noteq> buildGeneric \<longrightarrow>
        getObjectByName ''FinL'' ?g = None \<and> getObjectByName ''FinR'' ?g = None"
    using finless_species [OF generate_cases] by blast
  show ?thesis
    using 1 2 3 4 by blast
qed

theorem missing_part_is_noop_witness:
  "includesStr (fish_id dragonFish) ''dragon''
   \<and> getObjectByName ''Tail'' (generateLowPolyFish demoPointAt dragonFish) = None
   \<and> tailWag 1 (generateLowPolyFish demoPointAt dragonFish) = generateLowPolyFish demoPointAt dragonFish
   \<and> finFlap 1 (generateLowPolyFish demoPointAt dragonFish) = generateLowPolyFish demoPointAt dragonFish
   \<and> generateLowPolyFish demoPointAt sharkFish \<noteq> buildGeneric
   \<and> getObjectByName ''FinL'' (generateLowPolyFish demoPointAt sharkFish) = None
   \<and> finFlap 1 (generateLowPolyFish demoPointAt sharkFish) = generateLowPolyFish demoPointAt sharkFish"
proof -
  have h: "includesStr (fish_id dragonFish) ''dragon''" by (simp add: dragonFish_def)
  have s: "generateLowPolyFish demoPointAt sharkFish = buildShark"
    by (simp add: generateLowPolyFish_def sharkFish_def)
  have "getObjectByName ''FinL'' buildShark \<noteq> getObjectByName ''FinL'' buildGeneric"
    by (simp add: finless_lookup buildGeneric_lookup)
  then have n: "generateLowPolyFish demoPointAt sharkFish \<noteq> buildGeneric"
    using s by auto
  show ?thesis
    using missing_part_is_noop [of demoPointAt dragonFish 1]
      missing_part_is_noop [of demoPointAt sharkFish 1] h n
    by simp
qed


section \<open>Properties of the kelp\<close>

subsection \<open>Rounding to 32-bit floats\<close>

lemma round_even_cases: "round_even t = \<lfloor>t\<rfloor> \<or> round_even t = \<lfloor>t\<rfloor> + 1"
  by (simp add: round_even_def)


lemma round_even_of_int: "round_even (of_int n) = n"
  by (simp add: round_even_def)

lemma round_even_mono:
  assumes "s \<le> t"
  shows "round_even s \<le> round_even t"
proof (cases "\<lfloor>s\<rfloor> < \<lfloor>t\<rfloor>")
  case True
  have "round_even s \<le> \<lfloor>s\<rfloor> + 1" using round_even_cases [of s] by auto
  moreover have "\<lfloor>t\<rfloor> \<le> round_even t" using round_even_cases [of t] by auto
  ultimately show ?thesis using True by linarith
next
  case False
  then have eq: "\<lfloor>s\<rfloor> = \<lfloor>t\<rfloor>" using assms floor_mono [of s t] by linarith
  then have "s - of_int \<lfloor>s\<rfloor> \<le> t - of_int \<lfloor>t\<rfloor>" using assms by simp
  then show ?thesis
    unfolding round_even_def using eq by (auto split: if_splits)
qed

lemma round_even_le: "t \<le> of_int n \<Longrightarrow> round_even t \<le> n"
  using round_even_mono [of t "of_int n"] by (simp add: round_even_of_int)

lemma round_even_ge: "of_int n \<le> t \<Longrightarrow> n \<le> round_even t"
  using round_even_mono [of "of_int n" t] by (simp add: round_even_of_int)

lemma round_even_minus: "round_even (- t) = - round_even t"
proof (cases "t = of_int \<lfloor>t\<rfloor>")
  case True
  then obtain n where n: "t = of_int n" by metis
  have "round_even (of_int (- n)) = - n" by (rule round_even_of_int)
  then show ?thesis by (simp add: n round_even_of_int)
next
  case False
  then have f: "\<lfloor>- t\<rfloor> = - \<lfloor>t\<rfloor> - 1"
    by (simp add: floor_minus ceiling_altdef)
  have "- t - of_int \<lfloor>- t\<rfloor> = 1 - (t - of_int \<lfloor>t\<rfloor>)"
    by (simp add: f)
  then show ?thesis
    unfolding round_even_def f by (auto split: if_splits)
qed

lemma ulp32_pos: "0 < ulp32 x"
  by (simp add: ulp32_def)

lemma ulp32_minus: "ulp32 (- x) = ulp32 x"
  by (simp add: ulp32_def expo32_def)

lemma fround_zero: "fround 0 = 0"
  by (simp add: fround_def)

lemma fround_minus: "fround (- x) = - fround x"
  by (simp add: fround_def ulp32_minus round_even_minus)

lemma expo32_upper:
  assumes "x \<noteq> 0"
  shows "\<bar>x\<bar> < 2 powr (of_int (expo32 x) + 1)"
proof -
  have "log 2 \<bar>x\<bar> < of_int \<lfloor>log 2 \<bar>x\<bar>\<rfloor> + 1" by linarith
  also have "\<dots> \<le> of_int (expo32 x) + 1" by (simp add: expo32_def)
  finally have "2 powr log 2 \<bar>x\<bar> < 2 powr (of_int (expo32 x) + 1)"
    by (simp only: powr_less_cancel_iff one_less_numeral_iff semiring_norm)
  then show ?thesis using assms by simp
qed

lemma expo32_lower:
  assumes "x \<noteq> 0" and "- 126 < expo32 x"
  shows "2 powr of_int (expo32 x) \<le> \<bar>x\<bar>"
proof -
  have "expo32 x = \<lfloor>log 2 \<bar>x\<bar>\<rfloor>" using assms(2) by (simp add: expo32_def max_def split: if_splits)
  then have "of_int (expo32 x) \<le> log 2 \<bar>x\<bar>" by simp
  then have "2 powr of_int (expo32 x) \<le> 2 powr log 2 \<bar>x\<bar>"
    by (simp only: powr_le_cancel_iff one_less_numeral_iff semiring_norm)
  then show ?thesis using assms(1) by simp
qed

lemma expo32_mono:
  assumes "x \<noteq> 0" and "\<bar>x\<bar> \<le> \<bar>y\<bar>"
  shows "expo32 x \<le> expo32 y"
proof -
  have "log 2 \<bar>x\<bar> \<le> log 2 \<bar>y\<bar>" using assms by simp
  then have "\<lfloor>log 2 \<bar>x\<bar>\<rfloor> \<le> \<lfloor>log 2 \<bar>y\<bar>\<rfloor>" by (rule floor_mono)
  then show ?thesis by (simp add: expo32_def)
qed

lemma pow2_split: "(2::real) powr (of_int e + 1) = 2 ^ 24 * 2 powr (of_int e - 23)"
proof -
  have "of_int e + 1 = 24 + (of_int e - (23::real))" by simp
  then have "(2::real) powr (of_int e + 1) = 2 powr (24 + (of_int e - 23))" by (rule arg_cong)
  also have "\<dots> = 2 powr 24 * 2 powr (of_int e - 23)" by (rule powr_add)
  finally show ?thesis by simp
qed

lemma pow2_split': "(2::real) powr of_int e = 2 ^ 23 * 2 powr (of_int e - 23)"
proof -
  have "(2::real) powr of_int e = 2 powr (23 + (of_int e - 23))" by simp
  also have "\<dots> = 2 powr 23 * 2 powr (of_int e - 23)" by (rule powr_add)
  finally show ?thesis by simp
qed

lemma fround_upper:
  assumes "0 < x"
  shows "fround x \<le> 2 powr (of_int (expo32 x) + 1)"
proof -
  have x: "x \<noteq> 0" using assms by simp
  have "x < 2 ^ 24 * ulp32 x"
    using expo32_upper [OF x] assms by (simp add: pow2_split ulp32_def)
  then have "x / ulp32 x \<le> of_int (2 ^ 24)"
    using ulp32_pos [of x] by (simp add: pos_divide_le_eq)
  then have "round_even (x / ulp32 x) \<le> 2 ^ 24" by (rule round_even_le)
  then have "of_int (round_even (x / ulp32 x)) \<le> (2 ^ 24 :: real)"
    by (metis of_int_le_iff of_int_numeral of_int_power)
  then have "of_int (round_even (x / ulp32 x)) * ulp32 x \<le> 2 ^ 24 * ulp32 x"
    using ulp32_pos [of x] by (simp add: mult_right_mono)
  then show ?thesis using x by (simp add: fround_def pow2_split ulp32_def)
qed

lemma fround_lower:
  assumes "0 < x" and "- 126 < expo32 x"
  shows "2 powr of_int (expo32 x) \<le> fround x"
proof -
  have x: "x \<noteq> 0" using assms by simp
  have "2 ^ 23 * ulp32 x \<le> x"
    using expo32_lower [OF x assms(2)] assms(1) by (simp add: pow2_split' ulp32_def)
  then have "of_int (2 ^ 23) \<le> x / ulp32 x"
    using ulp32_pos [of x] by (simp add: pos_le_divide_eq)
  then have "2 ^ 23 \<le> round_even (x / ulp32 x)" by (rule round_even_ge)
  then have "(2 ^ 23 :: real) \<le> of_int (round_even (x / ulp32 x))"
    by (metis of_int_le_iff of_int_numeral of_int_power)
  then have "2 ^ 23 * ulp32 x \<le> of_int (round_even (x / ulp32 x)) * ulp32 x"
    using ulp32_pos [of x] by (simp add: mult_right_mono)
  then show ?thesis using x by (simp add: fround_def pow2_split' ulp32_def)
qed

lemma fround_nonneg:
  assumes "0 < x"
  shows "0 \<le> fround x"
proof -
  have "of_int 0 \<le> x / ulp32 x" using assms ulp32_pos [of x] by simp
  then have "0 \<le> round_even (x / ulp32 x)" by (rule round_even_ge)
  then show ?thesis using assms ulp32_pos [of x] by (simp add: fround_def)
qed

lemma fround_mono_pos:
  assumes "0 < x" and "x \<le> y"
  shows "fround x \<le> fround y"
proof -
  have x: "x \<noteq> 0" and y: "0 < y" "y \<noteq> 0" using assms by simp_all
  have e: "expo32 x \<le> expo32 y" using assms by (intro expo32_mono) simp_all
  show ?thesis
  proof (cases "expo32 x = expo32 y")
    case True
    then have u: "ulp32 x = ulp32 y" by (simp add: ulp32_def)
    have "x / ulp32 y \<le> y / ulp32 y"
      using assms(2) ulp32_pos [of y] by (simp add: divide_right_mono)
    then have "round_even (x / ulp32 y) \<le> round_even (y / ulp32 y)" by (rule round_even_mono)
    then have "of_int (round_even (x / ulp32 y)) * ulp32 y \<le> of_int (round_even (y / ulp32 y)) * ulp32 y"
      using ulp32_pos [of y] by (simp add: mult_right_mono)
    then show ?thesis using x y by (simp add: fround_def u)
  next
    case False
    then have lt: "expo32 x + 1 \<le> expo32 y" using e by simp
    then have n: "- 126 < expo32 y" by (simp add: expo32_def)
    have "fround x \<le> 2 powr (of_int (expo32 x) + 1)" using assms(1) by (rule fround_upper)
    also have "\<dots> \<le> 2 powr of_int (expo32 y)"
    proof -
      have "(of_int (expo32 x) + 1 :: real) \<le> of_int (expo32 y)"
        using lt by (metis of_int_le_iff of_int_add of_int_1)
      then show ?thesis by (simp only: powr_le_cancel_iff one_less_numeral_iff semiring_norm)
    qed
    also have "\<dots> \<le> fround y" using y(1) n by (rule fround_lower)
    finally show ?thesis .
  qed
qed

lemma fround_mono:
  assumes "x \<le> y"
  shows "fround x \<le> fround y"
proof -
  consider "0 < x" | "x = 0" "y = 0" | "x = 0" "0 < y" | "x < 0" "0 \<le> y" | "x < 0" "y < 0"
    using assms by linarith
  then show ?thesis
  proof cases
    case 1
    then show ?thesis using assms by (rule fround_mono_pos)
  next
    case 2
    then show ?thesis by simp
  next
    case 3
    then show ?thesis using fround_nonneg [of y] by (simp add: fround_zero)
  next
    case 4
    have "0 \<le> fround (- x)" using 4(1) by (intro fround_nonneg) simp
    then have a: "fround x \<le> 0" by (simp add: fround_minus)
    have "0 \<le> fround y"
      using 4(2) fround_nonneg [of y] by (cases "y = 0") (simp_all add: fround_zero)
    with a show ?thesis by simp
  next
    case 5
    have "fround (- y) \<le> fround (- x)"
      using 5 assms by (intro fround_mono_pos) simp_all
    then show ?thesis by (simp add: fround_minus)
  qed
qed


lemma fround_binade:
  assumes "2 powr of_int e \<le> \<bar>x\<bar>" and "\<bar>x\<bar> < 2 powr (of_int e + 1)" and "- 126 \<le> e"
  shows "fround x = of_int (round_even (x / 2 powr (of_int e - 23))) * 2 powr (of_int e - 23)"
proof -
  have pos: "0 < \<bar>x\<bar>" using assms(1) by (smt (verit) powr_gt_zero)
  have "of_int e \<le> log 2 \<bar>x\<bar>" using assms(1) pos by (simp add: le_log_iff)
  moreover have "log 2 \<bar>x\<bar> < of_int e + 1" using assms(2) pos by (simp add: log_less_iff)
  ultimately have "\<lfloor>log 2 \<bar>x\<bar>\<rfloor> = e" by linarith
  then have "ulp32 x = 2 powr (of_int e - 23)" using assms(3) by (simp add: ulp32_def expo32_def)
  then show ?thesis using pos by (simp add: fround_def)
qed

lemma fround_one: "fround 1 = 1"
  using fround_binade [of 0 1] by (simp add: round_even_def powr_neg_numeral)





subsection \<open>The twisted stalk\<close>

lemma planeGeometry_strip:
  "planeGeometry 2 H 1 4 =
     [\<lparr>vx = - 1, vy = fround (H / 2), vz = 0\<rparr>, \<lparr>vx = 1, vy = fround (H / 2), vz = 0\<rparr>,
      \<lparr>vx = - 1, vy = fround (H / 4), vz = 0\<rparr>, \<lparr>vx = 1, vy = fround (H / 4), vz = 0\<rparr>,
      \<lparr>vx = - 1, vy = 0, vz = 0\<rparr>, \<lparr>vx = 1, vy = 0, vz = 0\<rparr>,
      \<lparr>vx = - 1, vy = - fround (H / 4), vz = 0\<rparr>, \<lparr>vx = 1, vy = - fround (H / 4), vz = 0\<rparr>,
      \<lparr>vx = - 1, vy = - fround (H / 2), vz = 0\<rparr>, \<lparr>vx = 1, vy = - fround (H / 2), vz = 0\<rparr>]"
proof -
  have rows: "- (0 * (H / 4) - H / 2) = H / 2" "- (1 * (H / 4) - H / 2) = H / 4"
    "- (2 * (H / 4) - H / 2) = 0" "- (3 * (H / 4) - H / 2) = - (H / 4)"
    "- (4 * (H / 4) - H / 2) = - (H / 2)"
    by simp_all
  show ?thesis
    by (simp add: planeGeometry_def upt5 upt2 toFloat32_def fround_zero fround_one
        fround_minus)
qed


lemma twist_height: "vy (twistVertex H v) = fround (vy v + H / 2)"
  by (simp add: twistVertex_def toFloat32_def Let_def)

lemma kelp_heights:
  "map vy (kelpGeometry H) =
     [fround (fround (H / 2) + H / 2), fround (fround (H / 2) + H / 2),
      fround (fround (H / 4) + H / 2), fround (fround (H / 4) + H / 2),
      fround (H / 2), fround (H / 2),
      fround (fround (- (H / 4)) + H / 2), fround (fround (- (H / 4)) + H / 2),
      fround (fround (- (H / 2)) + H / 2), fround (fround (- (H / 2)) + H / 2)]"
  unfolding kelpGeometry_def planeGeometry_strip
  by (simp add: twist_height fround_minus)


lemma kelp_min:
  assumes "0 < H"
  shows "Min (set (map vy (kelpGeometry H))) = fround (fround (- (H / 2)) + H / 2)"
proof -
  let ?Y = "\<lambda>r. fround (fround r + H / 2)"
  have le: "?Y (- (H / 2)) \<le> ?Y r" if "- (H / 2) \<le> r" for r
    using that by (intro fround_mono add_right_mono)
  have mid: "fround (H / 2) = ?Y 0" by (simp add: fround_zero)
  have s: "set (map vy (kelpGeometry H)) =
      {?Y (H / 2), ?Y (H / 4), ?Y 0, ?Y (- (H / 4)), ?Y (- (H / 2))}"
    unfolding kelp_heights mid by auto
  show ?thesis
    unfolding s
  proof (rule Min_eqI)
    show "finite {?Y (H / 2), ?Y (H / 4), ?Y 0, ?Y (- (H / 4)), ?Y (- (H / 2))}" by simp
    show "?Y (- (H / 2)) \<in> {?Y (H / 2), ?Y (H / 4), ?Y 0, ?Y (- (H / 4)), ?Y (- (H / 2))}" by simp
    fix y assume "y \<in> {?Y (H / 2), ?Y (H / 4), ?Y 0, ?Y (- (H / 4)), ?Y (- (H / 2))}"
    then consider "y = ?Y (H / 2)" | "y = ?Y (H / 4)" | "y = ?Y 0" | "y = ?Y (- (H / 4))"
      | "y = ?Y (- (H / 2))" by blast
    then show "?Y (- (H / 2)) \<le> y"
      using assms le [of "H / 2"] le [of "H / 4"] le [of 0] le [of "- (H / 4)"]
      by cases simp_all
  qed
qed


lemma kelpHeight_pos: "0 \<le> rnd \<Longrightarrow> 0 < kelpHeight rnd"
  by (simp add: kelpHeight_def add_pos_nonneg)

text \<open>
  Every stalk that \<open>initVegetation\<close> builds has a height of at least \<open>10\<close>; its
  lowest vertices are those of the base row.
\<close>

lemma initVegetation_pivot:
  assumes "\<forall>d \<in> set draws. 0 \<le> fst d" and "k \<in> set (initVegetation draws)"
  shows "\<exists>H. 10 \<le> H \<and> Min (set (map vy (kelp_vertices k))) = fround (fround (- (H / 2)) + H / 2)"
proof -
  obtain d where d: "d \<in> set (take 40 draws)" "k = makeKelp d"
    using assms(2) by (auto simp: initVegetation_def)
  then have "d \<in> set draws" by (meson in_set_takeD)
  then have nn: "0 \<le> fst d" using assms(1) by simp
  then have "0 < kelpHeight (fst d)" by (rule kelpHeight_pos)
  then have "Min (set (map vy (kelpGeometry (kelpHeight (fst d))))) =
      fround (fround (- (kelpHeight (fst d) / 2)) + kelpHeight (fst d) / 2)"
    by (rule kelp_min)
  moreover have "10 \<le> kelpHeight (fst d)" using nn by (simp add: kelpHeight_def)
  ultimately show ?thesis
    using d(2) by (auto simp: makeKelp_def split: prod.splits)
qed

lemma initVegetation_count: "40 \<le> length draws \<Longrightarrow> length (initVegetation draws) = 40"
  by (simp add: initVegetation_def)





end
